theory Spec2Isabelle
  imports Complex_Main "HOL-Library.Sublist"
begin

section \<open>Python strings\<close>

text \<open>
  A Python \<open>str\<close> is a sequence of Unicode code points and \<open>len\<close> counts code points,
  so a string is a list of code points (natural numbers), not of bytes.
\<close>

type_synonym pystr = "nat list"

definition py :: "string \<Rightarrow> pystr" where
  "py s = map of_char s"

text \<open>\<open>str.isspace\<close>: the characters removed by \<open>str.strip()\<close> without argument.\<close>

definition is_space :: "nat \<Rightarrow> bool" where
  "is_space c =
     ((9 \<le> c \<and> c \<le> 13) \<or> (28 \<le> c \<and> c \<le> 32) \<or> c = 133 \<or> c = 160 \<or> c = 5760
      \<or> (8192 \<le> c \<and> c \<le> 8202) \<or> c = 8232 \<or> c = 8233 \<or> c = 8239 \<or> c = 8287
      \<or> c = 12288)"

text \<open>The line boundaries of \<open>str.splitlines()\<close>.\<close>

definition is_linebreak :: "nat \<Rightarrow> bool" where
  "is_linebreak c =
     ((10 \<le> c \<and> c \<le> 13) \<or> (28 \<le> c \<and> c \<le> 30) \<or> c = 133 \<or> c = 8232 \<or> c = 8233)"

definition strip :: "pystr \<Rightarrow> pystr" where
  "strip s = rev (dropWhile is_space (rev (dropWhile is_space s)))"

text \<open>
  \<open>str.splitlines()\<close>: \<open>cur\<close> is the line read so far. \<open>\r\n\<close> is one boundary; a
  text that ends with a boundary has no empty last line; the empty text has no line.
\<close>

fun splitlines_from :: "pystr \<Rightarrow> pystr \<Rightarrow> pystr list" where
  "splitlines_from cur [] = (if cur = [] then [] else [cur])"
| "splitlines_from cur (c # cs) =
     (if c = 13 \<and> cs \<noteq> [] \<and> hd cs = 10 then cur # splitlines_from [] (tl cs)
      else if is_linebreak c then cur # splitlines_from [] cs
      else splitlines_from (cur @ [c]) cs)"

definition splitlines :: "pystr \<Rightarrow> pystr list" where
  "splitlines s = splitlines_from [] s"

text \<open>\<open>sep.join(xs)\<close>.\<close>

fun join :: "pystr \<Rightarrow> pystr list \<Rightarrow> pystr" where
  "join sep [] = []"
| "join sep [x] = x"
| "join sep (x # y # ys) = x @ sep @ join sep (y # ys)"

text \<open>Truth value of an optional string: \<open>None\<close> and \<open>""\<close> are false.\<close>

definition truthy :: "pystr option \<Rightarrow> bool" where
  "truthy v = (case v of None \<Rightarrow> False | Some t \<Rightarrow> t \<noteq> [])"

text \<open>\<open>a or b\<close> on optional strings.\<close>

definition py_or :: "pystr option \<Rightarrow> pystr option \<Rightarrow> pystr option" where
  "py_or a b = (if truthy a then a else b)"

text \<open>\<open>v or ""\<close>.\<close>

definition or_empty :: "pystr option \<Rightarrow> pystr" where
  "or_empty v = (case v of None \<Rightarrow> [] | Some t \<Rightarrow> t)"

text \<open>How an f-string shows an optional string: \<open>None\<close> is shown as the word.\<close>

definition fmt :: "pystr option \<Rightarrow> pystr" where
  "fmt v = (case v of None \<Rightarrow> py ''None'' | Some t \<Rightarrow> t)"

text \<open>\<open>s.split(",")[0]\<close>: the text before the first comma (code point 44).\<close>

definition first_of_split_comma :: "pystr \<Rightarrow> pystr" where
  "first_of_split_comma s = takeWhile (\<lambda>c. c \<noteq> 44) s"

section \<open>Exceptions\<close>

text \<open>The exceptions that leave the functions of the program.\<close>

datatype error =
    CalledProcessError
  | DownloadError
  | RuntimeError
  | RequestException
  | HTTPError
  | JSONDecodeError
  | AttributeError

section \<open>utils.py\<close>

text \<open>
  An exception value as \<open>human_exc\<close> meets it. The function reads \<open>type(e).name\<close>, the
  attribute \<open>name\<close> of the exception's class, and \<open>str(e)\<close>.
  \<open>exc_class_attr_name\<close> is that class attribute as the f-string shows it, \<open>None\<close> when
  the class and its bases have no attribute \<open>name\<close>: that is so for \<open>Exception\<close>,
  \<open>ValueError\<close>, \<open>KeyError\<close>, \<open>RuntimeError\<close> and a plain user-defined subclass, and the
  lookup raises \<open>AttributeError\<close>. \<open>ImportError\<close> and its subclasses have one, the member
  descriptor shown as \<open><member 'name' of 'ImportError' objects>\<close>.
  \<open>exc_kind\<close> is the name of the class (its \<open>__name__\<close>), which the function does not
  read.
\<close>

record exc =
  exc_kind :: pystr
  exc_class_attr_name :: "pystr option"
  exc_str :: pystr

definition human_exc :: "exc \<Rightarrow> error + pystr" where
  "human_exc e =
     (case exc_class_attr_name e of
        None \<Rightarrow> Inl AttributeError
      | Some shown \<Rightarrow> Inr (shown @ py '': '' @ take 300 (exc_str e)))"

section \<open>The outside world\<close>

text \<open>
  An HTTP exchange of \<open>requests\<close>: the call raises (connection, timeout), or there is a
  response with a status code and a body that \<open>r.json()\<close> decodes or not.
\<close>

datatype 'a body = NotJson | Json 'a

datatype 'a http = Failed | Response nat "'a body"

text \<open>\<open>r.raise_for_status()\<close> raises \<open>HTTPError\<close> for the codes 400 to 599.\<close>

definition raises_for_status :: "nat \<Rightarrow> bool" where
  "raises_for_status code = (400 \<le> code \<and> code < 600)"

text \<open>
  The JSON objects of the services, with the fields the code reads. A field read with
  \<open>.get\<close> is optional. The objects are taken to follow the services' schemas: a
  recording or a match is an object with at least one key, a list field holds objects.
\<close>

record recording =
  rec_id :: "pystr option"
  rec_title :: "pystr option"
  rec_artist_credit :: "pystr option list"
  rec_releases :: "pystr list"

record am_recording =
  ar_id :: "pystr option"

record am_match =
  am_score :: "real option"
  am_recordings :: "am_recording list"

record acoustid_json =
  aj_status :: "pystr option"
  aj_results :: "am_match list"

record sp_item =
  item_spotify_url :: "pystr option"
  item_preview_url :: "pystr option"
  item_images :: "pystr option list"
  item_artists :: "pystr option list"
  item_name :: "pystr option"

text \<open>
  The value under \<open>"lyrics"\<close> in the lyrics service's answer: absent (also null or an
  answer that is a false value), a string, or anything else (a true value that is no
  string, or an answer that is no object).
\<close>

datatype lyrics_field = LyricsAbsent | LyricsStr pystr | LyricsOther

text \<open>
  Files. The directory of \<open>tempfile.TemporaryDirectory()\<close> and the file of
  \<open>tempfile.mkstemp\<close> are fresh: they are told apart from the paths the caller gives.
\<close>

datatype path = UserPath pystr | TmpDirEntry pystr | MkstempFile

datatype ffmpeg_exit = FfmpegOk | FfmpegFailed bool

datatype call =
    CallFfmpeg path path
  | CallYtdlp pystr
  | CallFingerprint path
  | CallAcoustid pystr int pystr
  | CallMbSearch pystr
  | CallMbLookup "pystr option"
  | CallCoverArt pystr
  | CallSpotifyToken
  | CallSpotifySearch pystr
  | CallLyrics pystr pystr

text \<open>
  The environment variables and the answers of the external programs and services.
  \<open>ffmpeg\<close> exits with zero and has written its output, or fails and has left an output
  file or not. \<open>ydl_download\<close> tells whether the download returned and the names of the
  files it left in the directory. \<open>fingerprint_file\<close> is \<open>None\<close> when importing or
  running the fingerprinter raises.
\<close>

record world =
  acoustid_api_key :: pystr
  spotify_client_id :: pystr
  spotify_client_secret :: pystr
  ffmpeg :: "path \<Rightarrow> path \<Rightarrow> ffmpeg_exit"
  ydl_download :: "pystr \<Rightarrow> bool \<times> pystr list"
  fingerprint_file :: "path \<Rightarrow> (pystr \<times> real) option"
  acoustid_http :: "pystr \<Rightarrow> int \<Rightarrow> pystr \<Rightarrow> acoustid_json http"
  mb_search_http :: "pystr \<Rightarrow> pystr \<Rightarrow> nat \<Rightarrow> recording list http"
  mb_lookup_http :: "pystr option \<Rightarrow> pystr \<Rightarrow> recording http"
  cover_http :: "pystr \<Rightarrow> unit http"
  spotify_token_http :: "pystr \<Rightarrow> pystr \<Rightarrow> pystr option http"
  spotify_search_http :: "pystr \<Rightarrow> pystr \<Rightarrow> nat \<Rightarrow> sp_item list http"
  lyrics_http :: "pystr \<Rightarrow> pystr \<Rightarrow> lyrics_field http"

text \<open>The state a call changes: the files that exist, and the calls made so far.\<close>

record st =
  files :: "path list"
  calls :: "call list"

definition log :: "call \<Rightarrow> st \<Rightarrow> st" where
  "log c s = s\<lparr>calls := calls s @ [c]\<rparr>"

definition create :: "path \<Rightarrow> st \<Rightarrow> st" where
  "create p s = s\<lparr>files := List.insert p (files s)\<rparr>"

section \<open>audio\_processing.py\<close>

text \<open>
  \<open>_run_ffmpeg_cmd\<close>, for the two shapes of arguments the callers give: an input and an
  output path. \<open>check=True\<close> raises on a non-zero exit.
\<close>

definition run_ffmpeg_cmd :: "world \<Rightarrow> path \<Rightarrow> path \<Rightarrow> st \<Rightarrow> (error + unit) \<times> st" where
  "run_ffmpeg_cmd w inp out s =
     (let s1 = log (CallFfmpeg inp out) s in
      case ffmpeg w inp out of
        FfmpegOk \<Rightarrow> (Inr (), create out s1)
      | FfmpegFailed left \<Rightarrow> (Inl CalledProcessError, if left then create out s1 else s1))"

text \<open>
  Case folding of \<open>re.IGNORECASE\<close> as far as the pattern \<open>https?://\<close> needs it: the
  capital letters, and U+017F, which matches \<open>s\<close>.
\<close>

definition fold_case :: "nat \<Rightarrow> nat" where
  "fold_case c = (if 65 \<le> c \<and> c \<le> 90 then c + 32 else if c = 383 then 115 else c)"

definition is_url :: "pystr \<Rightarrow> bool" where
  "is_url text =
     (let t = map fold_case (strip text)
      in prefix (py ''http://'') t \<or> prefix (py ''https://'') t)"

definition extract_audio_from_file :: "world \<Rightarrow> pystr \<Rightarrow> st \<Rightarrow> (error + path) \<times> st" where
  "extract_audio_from_file w in_path s =
     (let out_wav = UserPath (in_path @ py ''.wav'') in
      case run_ffmpeg_cmd w (UserPath in_path) out_wav s of
        (Inl e, s1) \<Rightarrow> (Inl e, s1)
      | (Inr u, s1) \<Rightarrow> (Inr out_wav, s1))"

fun tmp_name :: "path \<Rightarrow> pystr option" where
  "tmp_name (TmpDirEntry n) = Some n"
| "tmp_name p = None"

text \<open>\<open>os.listdir(tmpdir)\<close>.\<close>

definition listdir :: "st \<Rightarrow> pystr list" where
  "listdir s = List.map_filter tmp_name (files s)"

text \<open>Leaving the \<open>with tempfile.TemporaryDirectory()\<close> block removes the directory.\<close>

definition cleanup_tmpdir :: "st \<Rightarrow> st" where
  "cleanup_tmpdir s = s\<lparr>files := filter (\<lambda>p. tmp_name p = None) (files s)\<rparr>"

text \<open>The body of the \<open>with\<close> block of \<open>extract_audio_from_url\<close>.\<close>

definition download_and_convert :: "world \<Rightarrow> pystr \<Rightarrow> st \<Rightarrow> (error + path) \<times> st" where
  "download_and_convert w url s =
     (let s1 = log (CallYtdlp url) s;
          s2 = s1\<lparr>files := files s1 @ map TmpDirEntry (snd (ydl_download w url))\<rparr>
      in if \<not> fst (ydl_download w url) then (Inl DownloadError, s2)
         else case filter (\<lambda>f. prefix (py ''dl.'') f) (listdir s2) of
           [] \<Rightarrow> (Inl RuntimeError, s2)
         | f # fs \<Rightarrow>
             (let out_wav = TmpDirEntry (py ''audio.wav'') in
              case run_ffmpeg_cmd w (TmpDirEntry f) out_wav s2 of
                (Inl e, s3) \<Rightarrow> (Inl e, s3)
              | (Inr u, s3) \<Rightarrow>
                  (case run_ffmpeg_cmd w out_wav MkstempFile (create MkstempFile s3) of
                     (Inl e, s4) \<Rightarrow> (Inl e, s4)
                   | (Inr u, s4) \<Rightarrow> (Inr MkstempFile, s4))))"

definition extract_audio_from_url :: "world \<Rightarrow> pystr \<Rightarrow> st \<Rightarrow> (error + path) \<times> st" where
  "extract_audio_from_url w url s =
     (case download_and_convert w url s of (r, s1) \<Rightarrow> (r, cleanup_tmpdir s1))"

section \<open>providers.py\<close>

definition mb_search_recordings ::
    "world \<Rightarrow> pystr \<Rightarrow> pystr \<Rightarrow> nat \<Rightarrow> st \<Rightarrow> (error + recording list) \<times> st" where
  "mb_search_recordings w query user_agent limit s =
     (let s1 = log (CallMbSearch query) s in
      case mb_search_http w query user_agent limit of
        Failed \<Rightarrow> (Inl RequestException, s1)
      | Response code b \<Rightarrow>
          if raises_for_status code then (Inl HTTPError, s1)
          else (case b of NotJson \<Rightarrow> (Inl JSONDecodeError, s1) | Json recs \<Rightarrow> (Inr recs, s1)))"

definition mb_lookup_recording ::
    "world \<Rightarrow> pystr option \<Rightarrow> pystr \<Rightarrow> st \<Rightarrow> (error + recording) \<times> st" where
  "mb_lookup_recording w mbid user_agent s =
     (let s1 = log (CallMbLookup mbid) s in
      case mb_lookup_http w mbid user_agent of
        Failed \<Rightarrow> (Inl RequestException, s1)
      | Response code b \<Rightarrow>
          if raises_for_status code then (Inl HTTPError, s1)
          else (case b of NotJson \<Rightarrow> (Inl JSONDecodeError, s1) | Json info \<Rightarrow> (Inr info, s1)))"

definition cover_art_from_release :: "world \<Rightarrow> pystr \<Rightarrow> st \<Rightarrow> pystr option \<times> st" where
  "cover_art_from_release w release_mbid s =
     (let url = py ''https://coverartarchive.org/release/'' @ release_mbid @ py ''/front'';
          s1 = log (CallCoverArt release_mbid) s in
      case cover_http w release_mbid of
        Failed \<Rightarrow> (None, s1)
      | Response code b \<Rightarrow> (if code = 200 then Some url else None, s1))"

definition acoustid_lookup ::
    "world \<Rightarrow> pystr \<Rightarrow> int \<Rightarrow> pystr \<Rightarrow> st \<Rightarrow> (error + am_match list) \<times> st" where
  "acoustid_lookup w fp duration api_key s =
     (let s1 = log (CallAcoustid fp duration api_key) s in
      case acoustid_http w fp duration api_key of
        Failed \<Rightarrow> (Inl RequestException, s1)
      | Response code b \<Rightarrow>
          if raises_for_status code then (Inl HTTPError, s1)
          else (case b of
                  NotJson \<Rightarrow> (Inl JSONDecodeError, s1)
                | Json js \<Rightarrow>
                    if aj_status js \<noteq> Some (py ''ok'') then (Inr [], s1)
                    else (Inr (aj_results js), s1)))"

definition spotify_client_credentials_token ::
    "world \<Rightarrow> pystr \<Rightarrow> pystr \<Rightarrow> st \<Rightarrow> (error + pystr option) \<times> st" where
  "spotify_client_credentials_token w client_id client_secret s =
     (if client_id = [] \<or> client_secret = [] then (Inr None, s)
      else let s1 = log CallSpotifyToken s in
        case spotify_token_http w client_id client_secret of
          Failed \<Rightarrow> (Inl RequestException, s1)
        | Response code b \<Rightarrow>
            if code \<noteq> 200 then (Inr None, s1)
            else (case b of NotJson \<Rightarrow> (Inl JSONDecodeError, s1) | Json tok \<Rightarrow> (Inr tok, s1)))"

definition spotify_search_track ::
    "world \<Rightarrow> pystr \<Rightarrow> pystr \<Rightarrow> nat \<Rightarrow> st \<Rightarrow> (error + sp_item list) \<times> st" where
  "spotify_search_track w q token limit s =
     (let s1 = log (CallSpotifySearch q) s in
      case spotify_search_http w q token limit of
        Failed \<Rightarrow> (Inl RequestException, s1)
      | Response code b \<Rightarrow>
          if raises_for_status code then (Inl HTTPError, s1)
          else (case b of NotJson \<Rightarrow> (Inl JSONDecodeError, s1) | Json items \<Rightarrow> (Inr items, s1)))"

text \<open>
  The names of a list of artist objects that have a true \<open>"name"\<close>: the generator
  \<open>a.get("name", "") for a in ... if a.get("name")\<close>.
\<close>

definition artist_names :: "pystr option list \<Rightarrow> pystr list" where
  "artist_names credits = map or_empty (filter truthy credits)"

text \<open>The dictionary returned by \<open>spotify_track_link_and_preview\<close>.\<close>

record sp_info =
  link :: "pystr option"
  preview :: "pystr option"
  cover :: "pystr option"
  sp_artists :: pystr
  sp_title :: "pystr option"

definition spotify_track_link_and_preview :: "sp_item \<Rightarrow> sp_info" where
  "spotify_track_link_and_preview item =
     \<lparr>link = item_spotify_url item,
      preview = item_preview_url item,
      cover = (case item_images item of [] \<Rightarrow> None | i # is \<Rightarrow> i),
      sp_artists = join (py '', '') (artist_names (item_artists item)),
      sp_title = item_name item\<rparr>"

text \<open>
  The loop of \<open>lyrics_best_effort\<close>: a non-blank line is appended stripped, and the
  loop is left once the lines collected hold more than 500 characters.
\<close>

fun excerpt_loop :: "pystr list \<Rightarrow> pystr list \<Rightarrow> pystr list" where
  "excerpt_loop out [] = out"
| "excerpt_loop out (line # rest) =
     (let out1 = (if strip line \<noteq> [] then out @ [strip line] else out)
      in if sum_list (map length out1) > 500 then out1 else excerpt_loop out1 rest)"

definition lyrics_best_effort :: "world \<Rightarrow> pystr \<Rightarrow> pystr \<Rightarrow> st \<Rightarrow> pystr option \<times> st" where
  "lyrics_best_effort w artist title_arg s =
     (if artist = [] \<or> title_arg = [] then (None, s)
      else let s1 = log (CallLyrics artist title_arg) s in
        case lyrics_http w artist title_arg of
          Failed \<Rightarrow> (None, s1)
        | Response code b \<Rightarrow>
            if code \<noteq> 200 then (None, s1)
            else (case b of
                    NotJson \<Rightarrow> (None, s1)
                  | Json LyricsAbsent \<Rightarrow> (None, s1)
                  | Json LyricsOther \<Rightarrow> (None, s1)
                  | Json (LyricsStr txt) \<Rightarrow>
                      if txt = [] then (None, s1)
                      else (Some (join [10] (excerpt_loop [] (splitlines (strip txt)))), s1)))"

section \<open>search\_engine.py\<close>

text \<open>\<open>int(duration)\<close> rounds towards zero.\<close>

definition py_int :: "real \<Rightarrow> int" where
  "py_int d = (if d < 0 then \<lceil>d\<rceil> else \<lfloor>d\<rfloor>)"

definition chromaprint_fingerprint :: "world \<Rightarrow> path \<Rightarrow> st \<Rightarrow> (pystr \<times> int) option \<times> st" where
  "chromaprint_fingerprint w wav_path s =
     (case fingerprint_file w wav_path of
        None \<Rightarrow> (None, log (CallFingerprint wav_path) s)
      | Some (fp, duration) \<Rightarrow> (Some (fp, py_int duration), log (CallFingerprint wav_path) s))"

definition spotify_token :: "world \<Rightarrow> st \<Rightarrow> (error + pystr option) \<times> st" where
  "spotify_token w s =
     (if spotify_client_id w = [] \<or> spotify_client_secret w = [] then (Inr None, s)
      else spotify_client_credentials_token w (spotify_client_id w) (spotify_client_secret w) s)"

text \<open>
  \<open>_enrich_spotify_and_cover\<close> returns (link, preview, cover url). The title is
  optional: the audio path passes what the lookup holds, and the f-string of the search
  text shows \<open>None\<close> as a word.
\<close>

definition enrich_spotify_and_cover ::
    "world \<Rightarrow> pystr option \<Rightarrow> pystr \<Rightarrow> pystr option \<Rightarrow> st
       \<Rightarrow> (error + pystr option \<times> pystr option \<times> pystr option) \<times> st" where
  "enrich_spotify_and_cover w title_arg artists_arg cover_arg s =
     (case spotify_token w s of
        (Inl e, s1) \<Rightarrow> (Inl e, s1)
      | (Inr token, s1) \<Rightarrow>
          if \<not> truthy token then (Inr (None, None, cover_arg), s1)
          else (case spotify_search_track w (strip (fmt title_arg @ [32] @ artists_arg))
                       (or_empty token) 1 s1 of
                  (Inl e, s2) \<Rightarrow> (Inl e, s2)
                | (Inr [], s2) \<Rightarrow> (Inr (None, None, cover_arg), s2)
                | (Inr (item # items), s2) \<Rightarrow>
                    (let sp = spotify_track_link_and_preview item
                     in (Inr (link sp, preview sp, py_or cover_arg (cover sp)), s2))))"

text \<open>The dictionary the two identification functions return.\<close>

record track_result =
  title :: "pystr option"
  artists :: pystr
  cover_url :: "pystr option"
  mbid :: "pystr option"
  spotify_link :: "pystr option"
  spotify_preview :: "pystr option"
  lyrics_excerpt :: "pystr option"

text \<open>
  \<open>sorted(xs, key=key, reverse=True)\<close>: the sort is stable, and with \<open>reverse=True\<close>
  elements with equal keys keep their order: the list is reversed, sorted by ascending
  key, and reversed again.
\<close>

definition sorted_reverse :: "('a \<Rightarrow> real) \<Rightarrow> 'a list \<Rightarrow> 'a list" where
  "sorted_reverse key xs = rev (sort_key key (rev xs))"

text \<open>\<open>x.get("score", 0)\<close>.\<close>

definition score_key :: "am_match \<Rightarrow> real" where
  "score_key x = (case am_score x of None \<Rightarrow> 0 | Some v \<Rightarrow> v)"

text \<open>
  Lines 69 to 73 of \<open>identify_from_audio_input\<close>: the first recording of the top match,
  \<open>None\<close> when there is no match or the top match has no recording.
\<close>

definition top_recording :: "am_match list \<Rightarrow> am_recording option" where
  "top_recording matches =
     (case sorted_reverse score_key matches of
        [] \<Rightarrow> None
      | best # ms \<Rightarrow> (case am_recordings best of [] \<Rightarrow> None | r # rs \<Rightarrow> Some r))"

text \<open>The artist given to the lyrics lookup: \<open>artists.split(",")[0].strip() if artists else ""\<close>.\<close>

definition first_artist :: "pystr \<Rightarrow> pystr" where
  "first_artist a = (if a \<noteq> [] then strip (first_of_split_comma a) else [])"

text \<open>Lines 74 to 90 of \<open>identify_from_audio_input\<close>: the result for a recording.\<close>

definition result_of_recording ::
    "world \<Rightarrow> am_recording \<Rightarrow> pystr \<Rightarrow> st \<Rightarrow> (error + track_result option) \<times> st" where
  "result_of_recording w r user_agent s =
     (case mb_lookup_recording w (ar_id r) user_agent s of
        (Inl e, s1) \<Rightarrow> (Inl e, s1)
      | (Inr info, s1) \<Rightarrow>
          (let a = join (py '', '') (artist_names (rec_artist_credit info));
               (c, s2) = (case rec_releases info of
                            [] \<Rightarrow> (None, s1)
                          | rel # rels \<Rightarrow> cover_art_from_release w rel s1)
           in case enrich_spotify_and_cover w (rec_title info) a c s2 of
                (Inl e, s3) \<Rightarrow> (Inl e, s3)
              | (Inr (sp_link, sp_prev, c1), s3) \<Rightarrow>
                  (let (lyrics, s4) =
                         lyrics_best_effort w (first_artist a) (or_empty (rec_title info)) s3
                   in (Inr (Some \<lparr>title = rec_title info, artists = a, cover_url = c1,
                                   mbid = ar_id r, spotify_link = sp_link,
                                   spotify_preview = sp_prev, lyrics_excerpt = lyrics\<rparr>), s4))))"

text \<open>Lines 57 to 60 of \<open>identify_from_audio_input\<close>: convert the input to WAV.\<close>

definition normalize :: "world \<Rightarrow> pystr \<Rightarrow> st \<Rightarrow> (error + path) \<times> st" where
  "normalize w input_path_or_url s =
     (if is_url input_path_or_url then extract_audio_from_url w input_path_or_url s
      else extract_audio_from_file w input_path_or_url s)"

definition identify_from_audio_input ::
    "world \<Rightarrow> pystr \<Rightarrow> pystr \<Rightarrow> st \<Rightarrow> (error + track_result option) \<times> st" where
  "identify_from_audio_input w input_path_or_url user_agent s =
     (case normalize w input_path_or_url s of
        (Inl e, s1) \<Rightarrow> (Inl e, s1)
      | (Inr wav_path, s1) \<Rightarrow>
          if acoustid_api_key w = [] then (Inr None, s1)
          else (case chromaprint_fingerprint w wav_path s1 of
                  (None, s2) \<Rightarrow> (Inr None, s2)
                | (Some (fp, dur), s2) \<Rightarrow>
                    (case acoustid_lookup w fp dur (acoustid_api_key w) s2 of
                       (Inl e, s3) \<Rightarrow> (Inl e, s3)
                     | (Inr matches, s3) \<Rightarrow>
                         (case top_recording matches of
                            None \<Rightarrow> (Inr None, s3)
                          | Some r \<Rightarrow> result_of_recording w r user_agent s3))))"

text \<open>Lines 104 to 122 of \<open>identify_from_text\<close>: nothing picked, ask Spotify.\<close>

definition text_fallback ::
    "world \<Rightarrow> pystr \<Rightarrow> st \<Rightarrow> (error + track_result option) \<times> st" where
  "text_fallback w query s =
     (case spotify_token w s of
        (Inl e, s1) \<Rightarrow> (Inl e, s1)
      | (Inr token, s1) \<Rightarrow>
          if \<not> truthy token then (Inr None, s1)
          else (case spotify_search_track w query (or_empty token) 1 s1 of
                  (Inl e, s2) \<Rightarrow> (Inl e, s2)
                | (Inr [], s2) \<Rightarrow> (Inr None, s2)
                | (Inr (item # items), s2) \<Rightarrow>
                    (let sp = spotify_track_link_and_preview item;
                         a = sp_artists sp;
                         t = (if truthy (sp_title sp) then or_empty (sp_title sp) else query);
                         (lyrics, s3) = lyrics_best_effort w (first_artist a) t s2
                     in (Inr (Some \<lparr>title = Some t, artists = a, cover_url = cover sp,
                                     mbid = None, spotify_link = link sp,
                                     spotify_preview = preview sp, lyrics_excerpt = lyrics\<rparr>),
                         s3))))"

text \<open>Lines 124 to 142 of \<open>identify_from_text\<close>: the result for the picked recording.\<close>

definition result_of_pick ::
    "world \<Rightarrow> recording \<Rightarrow> st \<Rightarrow> (error + track_result option) \<times> st" where
  "result_of_pick w pick s =
     (let names = join (py '', '') (artist_names (rec_artist_credit pick));
          a = (if names \<noteq> [] then names else py ''Unknown'');
          (c, s1) = (case rec_releases pick of
                       [] \<Rightarrow> (None, s)
                     | rel # rels \<Rightarrow> cover_art_from_release w rel s)
      in case enrich_spotify_and_cover w (Some (or_empty (rec_title pick))) a c s1 of
           (Inl e, s2) \<Rightarrow> (Inl e, s2)
         | (Inr (sp_link, sp_prev, c1), s2) \<Rightarrow>
             (let (lyrics, s3) =
                    lyrics_best_effort w (first_artist a) (or_empty (rec_title pick)) s2
              in (Inr (Some \<lparr>title = rec_title pick, artists = a, cover_url = c1,
                              mbid = rec_id pick, spotify_link = sp_link,
                              spotify_preview = sp_prev, lyrics_excerpt = lyrics\<rparr>), s3)))"

definition identify_from_text ::
    "world \<Rightarrow> pystr \<Rightarrow> pystr \<Rightarrow> st \<Rightarrow> (error + track_result option) \<times> st" where
  "identify_from_text w query user_agent s =
     (case mb_search_recordings w query user_agent 5 s of
        (Inl e, s1) \<Rightarrow> (Inl e, s1)
      | (Inr [], s1) \<Rightarrow> text_fallback w query s1
      | (Inr (pick # recordings), s1) \<Rightarrow> result_of_pick w pick s1)"

section \<open>Traces\<close>

text \<open>The calls of the enrichment steps: cover art, Spotify, lyrics.\<close>

fun enrich_call :: "call \<Rightarrow> bool" where
  "enrich_call (CallCoverArt r) = True"
| "enrich_call CallSpotifyToken = True"
| "enrich_call (CallSpotifySearch q) = True"
| "enrich_call (CallLyrics a t) = True"
| "enrich_call c = False"

text \<open>
  \<open>only_logs P s s1\<close>: from \<open>s\<close> to \<open>s1\<close> no file was created or removed, and the calls
  made are calls of the kind \<open>P\<close>, added to the trace.
\<close>

definition only_logs :: "(call \<Rightarrow> bool) \<Rightarrow> st \<Rightarrow> st \<Rightarrow> bool" where
  "only_logs P s s1 =
     (files s1 = files s \<and> take (length (calls s)) (calls s1) = calls s
      \<and> list_all P (drop (length (calls s)) (calls s1)))"

section \<open>Example inputs\<close>

text \<open>
  A world in which nothing is configured and no service answers: \<open>ffmpeg\<close> works, the
  download leaves one file, the metadata search finds nothing.
\<close>

definition quiet_world :: world where
  "quiet_world =
     \<lparr>acoustid_api_key = [], spotify_client_id = [], spotify_client_secret = [],
      ffmpeg = (\<lambda>i out. FfmpegOk),
      ydl_download = (\<lambda>u. (True, [py ''dl.webm''])),
      fingerprint_file = (\<lambda>p. None),
      acoustid_http = (\<lambda>fp d k. Failed),
      mb_search_http = (\<lambda>q ua n. Response 200 (Json [])),
      mb_lookup_http = (\<lambda>m ua. Failed),
      cover_http = (\<lambda>r. Failed),
      spotify_token_http = (\<lambda>c x. Failed),
      spotify_search_http = (\<lambda>q t n. Failed),
      lyrics_http = (\<lambda>a t. Failed)\<rparr>"

definition empty_st :: st where
  "empty_st = \<lparr>files = [], calls = []\<rparr>"

text \<open>Three matches of the fingerprint service; the second and the third share the best score.\<close>

definition three_matches :: "am_match list" where
  "three_matches =
     [\<lparr>am_score = Some (1 / 2), am_recordings = [\<lparr>ar_id = Some (py ''r1'')\<rparr>]\<rparr>,
      \<lparr>am_score = Some (9 / 10),
       am_recordings = [\<lparr>ar_id = Some (py ''r2'')\<rparr>, \<lparr>ar_id = Some (py ''r3'')\<rparr>]\<rparr>,
      \<lparr>am_score = Some (9 / 10), am_recordings = [\<lparr>ar_id = Some (py ''r4'')\<rparr>]\<rparr>]"

text \<open>The lyrics service answers with one line of 501 letters.\<close>

definition long_line_world :: world where
  "long_line_world =
     quiet_world\<lparr>lyrics_http := (\<lambda>a t. Response 200 (Json (LyricsStr (replicate 501 97))))\<rparr>"

text \<open>The lyrics service answers with two lines, a blank line between them.\<close>

definition two_lines_world :: world where
  "two_lines_world =
     quiet_world\<lparr>lyrics_http :=
       (\<lambda>a t. Response 200
                 (Json (LyricsStr (py ''  la la '' @ [10, 10] @ py ''na na'' @ [10]))))\<rparr>"

text \<open>The calls that search a catalogue by text.\<close>

fun text_search_call :: "call \<Rightarrow> bool" where
  "text_search_call (CallMbSearch q) = True"
| "text_search_call (CallSpotifySearch q) = True"
| "text_search_call c = False"

text \<open>The fingerprint service answers with status 201, 200 with an error status in the body, or 503.\<close>

definition acoustid_201_world :: world where
  "acoustid_201_world =
     quiet_world\<lparr>acoustid_http :=
       (\<lambda>fp d k. Response 201 (Json \<lparr>aj_status = Some (py ''ok''), aj_results = three_matches\<rparr>))\<rparr>"

definition acoustid_error_world :: world where
  "acoustid_error_world =
     quiet_world\<lparr>acoustid_http :=
       (\<lambda>fp d k. Response 200 (Json \<lparr>aj_status = Some (py ''error''), aj_results = three_matches\<rparr>))\<rparr>"

definition acoustid_503_world :: world where
  "acoustid_503_world = quiet_world\<lparr>acoustid_http := (\<lambda>fp d k. Response 503 NotJson)\<rparr>"

text \<open>The fingerprint key is set, the fingerprinter fails.\<close>

definition key_world :: world where
  "key_world = quiet_world\<lparr>acoustid_api_key := py ''key''\<rparr>"

text \<open>\<open>ValueError('x')\<close>: its class has no attribute \<open>name\<close>.\<close>

definition value_error_x :: exc where
  "value_error_x =
     \<lparr>exc_kind = py ''ValueError'', exc_class_attr_name = None, exc_str = py ''x''\<rparr>"

text \<open>
  The fingerprint key is set, the fingerprinter and the fingerprint service answer (with
  \<open>three_matches\<close>), and the metadata database knows the recording \<open>r2\<close> only.
\<close>

definition match_world :: world where
  "match_world =
     quiet_world\<lparr>acoustid_api_key := py ''key'',
       fingerprint_file := (\<lambda>p. Some (py ''AQAA'', 127 / 10)),
       acoustid_http :=
         (\<lambda>fp d k. Response 200 (Json \<lparr>aj_status = Some (py ''ok''), aj_results = three_matches\<rparr>)),
       mb_lookup_http :=
         (\<lambda>m ua. if m = Some (py ''r2'')
                  then Response 200
                         (Json \<lparr>rec_id = Some (py ''r2''), rec_title = Some (py ''Song''),
                                rec_artist_credit = [Some (py ''Ann'')], rec_releases = []\<rparr>)
                  else Failed)\<rparr>"

text \<open>
  The metadata search finds one recording with a release, cover art and lyrics answer,
  the Spotify credentials are set and the token is granted, and the Spotify search
  answers with status 500.
\<close>

definition spotify_down_world :: world where
  "spotify_down_world =
     quiet_world\<lparr>spotify_client_id := py ''id'', spotify_client_secret := py ''sec'',
       mb_search_http :=
         (\<lambda>q ua n. Response 200
            (Json [\<lparr>rec_id = Some (py ''r1''), rec_title = Some (py ''Song''),
                    rec_artist_credit = [Some (py ''Ann'')], rec_releases = [py ''rel1'']\<rparr>])),
       cover_http := (\<lambda>r. Response 200 (Json ())),
       spotify_token_http := (\<lambda>c x. Response 200 (Json (Some (py ''tok'')))),
       spotify_search_http := (\<lambda>q t n. Response 500 NotJson),
       lyrics_http := (\<lambda>a t. Response 200 (Json (LyricsStr (py ''la la''))))\<rparr>"

text \<open>The same world with a Spotify search that answers and finds nothing.\<close>

definition spotify_empty_world :: world where
  "spotify_empty_world =
     spotify_down_world\<lparr>spotify_search_http := (\<lambda>q t n. Response 200 (Json []))\<rparr>"

text \<open>
  The metadata search finds nothing, the Spotify credentials are set, the token is
  granted and the Spotify search has one hit.
\<close>

definition fallback_world :: world where
  "fallback_world =
     quiet_world\<lparr>spotify_client_id := py ''id'', spotify_client_secret := py ''sec'',
       spotify_token_http := (\<lambda>c x. Response 200 (Json (Some (py ''tok'')))),
       spotify_search_http :=
         (\<lambda>q t n. Response 200
            (Json [\<lparr>item_spotify_url = Some (py ''https://open.spotify.com/track/1''),
                    item_preview_url = None, item_images = [],
                    item_artists = [Some (py ''Ann'')], item_name = Some (py ''Song'')\<rparr>]))\<rparr>"

text \<open>
  As \<open>match_world\<close>, but the metadata database names no artist: the recording looked up
  and the recording found by the text search have one credit without a name.
\<close>

definition anonymous_world :: world where
  "anonymous_world =
     match_world\<lparr>
       mb_lookup_http :=
         (\<lambda>m ua. Response 200
                    (Json \<lparr>rec_id = m, rec_title = Some (py ''Song''),
                           rec_artist_credit = [None], rec_releases = []\<rparr>)),
       mb_search_http :=
         (\<lambda>q ua n. Response 200
                      (Json [\<lparr>rec_id = Some (py ''r1''), rec_title = Some (py ''Song''),
                              rec_artist_credit = [None], rec_releases = []\<rparr>]))\<rparr>"

text \<open>As \<open>anonymous_world\<close>, and the recording looked up has no title either.\<close>

definition untitled_world :: world where
  "untitled_world =
     anonymous_world\<lparr>
       mb_lookup_http :=
         (\<lambda>m ua. Response 200
                    (Json \<lparr>rec_id = m, rec_title = None,
                           rec_artist_credit = [None], rec_releases = []\<rparr>))\<rparr>"

text \<open>As \<open>fallback_world\<close>, but the hit of the Spotify search has no name and no artist.\<close>

definition nameless_hit_world :: world where
  "nameless_hit_world =
     fallback_world\<lparr>
       spotify_search_http :=
         (\<lambda>q t n. Response 200
            (Json [\<lparr>item_spotify_url = Some (py ''https://open.spotify.com/track/1''),
                    item_preview_url = None, item_images = [],
                    item_artists = [], item_name = None\<rparr>]))\<rparr>"

text \<open>The state in which the file sent by the user has been stored.\<close>

definition upload_st :: st where
  "upload_st = \<lparr>files = [UserPath (py ''clip.ogg'')], calls = []\<rparr>"

section \<open>Lists and sorting\<close>

lemma last_filter_keep: "xs \<noteq> [] \<Longrightarrow> P (last xs) \<Longrightarrow> last (filter P xs) = last xs"
  by (induction xs rule: rev_induct) auto

lemma sorted_le_last: "sorted (map f zs) \<Longrightarrow> z \<in> set zs \<Longrightarrow> f z \<le> f (last zs)"
proof (induction zs)
  case Nil
  then show ?case by simp
next
  case (Cons a zs)
  then show ?case by (cases "zs = []") auto
qed

text \<open>
  The head of a list sorted by descending key, ties in the original order, is the first
  element of the list whose key is the greatest.
\<close>

lemma sorted_reverse_head:
  assumes "xs \<noteq> []"
  shows "\<exists>best pre post. sorted_reverse key xs = best # rev (butlast (sort_key key (rev xs)))
           \<and> xs = pre @ best # post
           \<and> (\<forall>m\<in>set pre. key m < key best) \<and> (\<forall>m\<in>set post. key m \<le> key best)"
proof -
  define zs where "zs = sort_key key (rev xs)"
  define b where "b = last zs"
  have ne: "zs \<noteq> []" using assms unfolding zs_def by (metis length_sort length_rev length_0_conv)
  have srt: "sorted (map key zs)" unfolding zs_def by simp
  have setz: "set zs = set xs" unfolding zs_def by simp
  have le: "\<And>m. m \<in> set xs \<Longrightarrow> key m \<le> key b"
    using sorted_le_last [OF srt] setz unfolding b_def by blast
  have "filter (\<lambda>y. key y = key b) zs = filter (\<lambda>y. key y = key b) (rev xs)"
    unfolding zs_def by (rule sort_key_stable)
  moreover have "last (filter (\<lambda>y. key y = key b) zs) = b"
    unfolding b_def using ne by (simp add: last_filter_keep)
  ultimately have "last (rev (filter (\<lambda>y. key y = key b) xs)) = b"
    by (simp add: rev_filter)
  moreover have "b \<in> set xs" using ne setz unfolding b_def by (metis last_in_set)
  then have fne: "filter (\<lambda>y. key y = key b) xs \<noteq> []"
    by (auto simp: filter_empty_conv)
  ultimately have "hd (filter (\<lambda>y. key y = key b) xs) = b"
    by (simp add: last_rev)
  with fne have "\<exists>r. filter (\<lambda>y. key y = key b) xs = b # r"
    by (cases "filter (\<lambda>y. key y = key b) xs") auto
  then obtain pre post where sp: "xs = pre @ b # post" "\<forall>u\<in>set pre. key u \<noteq> key b"
    by (auto simp: filter_eq_Cons_iff)
  have "\<forall>m\<in>set pre. key m < key b"
    using sp le by (metis Un_iff order_le_less set_append)
  moreover have "\<forall>m\<in>set post. key m \<le> key b" using sp le by simp
  moreover have "sorted_reverse key xs = b # rev (butlast zs)"
    unfolding sorted_reverse_def zs_def [symmetric] b_def using ne
    by (metis append_butlast_last_id rev.simps(2) rev_rev_ident rev_singleton_conv rev_append append_Cons append_Nil)
  ultimately show ?thesis using sp(1) unfolding zs_def by blast
qed

text \<open>
  Lines 69 to 73: the match ranked first by \<open>sorted(..., key=score, reverse=True)\<close> has
  the greatest score and is the first with that score in the service's order;
  \<open>top_recording\<close> is its first recording.
\<close>

lemma top_recording_first_maximum:
  assumes "matches \<noteq> []"
  shows "\<exists>best pre post. matches = pre @ best # post
           \<and> (\<forall>m\<in>set pre. score_key m < score_key best)
           \<and> (\<forall>m\<in>set post. score_key m \<le> score_key best)
           \<and> top_recording matches = (case am_recordings best of [] \<Rightarrow> None | r # rs \<Rightarrow> Some r)"
proof -
  obtain best pre post where h:
    "sorted_reverse score_key matches = best # rev (butlast (sort_key score_key (rev matches)))"
    "matches = pre @ best # post"
    "\<forall>m\<in>set pre. score_key m < score_key best" "\<forall>m\<in>set post. score_key m \<le> score_key best"
    using sorted_reverse_head [OF assms, of score_key] by blast
  have "top_recording matches = (case am_recordings best of [] \<Rightarrow> None | r # rs \<Rightarrow> Some r)"
    unfolding top_recording_def h(1) by simp
  with h show ?thesis by blast
qed

section \<open>The error description\<close>

text \<open>
  C8. \<open>human_exc\<close> does not return the error kind followed by the truncated message for
  an ordinary exception. The class of \<open>ValueError('x')\<close> has no attribute \<open>name\<close>, so
  \<open>type(e).name\<close> raises \<open>AttributeError\<close> and the text \<open>ValueError: x\<close> is not returned;
  the same happens for every exception whose class has no such attribute, whatever its
  kind and its message.
\<close>

theorem human_exc_raises_attribute_error:
  "human_exc value_error_x = Inl AttributeError
   \<and> human_exc value_error_x
       \<noteq> Inr (exc_kind value_error_x @ py '': '' @ take 300 (exc_str value_error_x))
   \<and> (\<forall>k m. human_exc \<lparr>exc_kind = k, exc_class_attr_name = None, exc_str = m\<rparr>
              = Inl AttributeError)"
  by (simp add: human_exc_def value_error_x_def)

section \<open>The lyrics excerpt\<close>

lemma sum_butlast_le:
  "sum_list (map length (butlast (xs::'a list list))) \<le> sum_list (map length xs)"
  by (induction xs) auto

text \<open>The loop checks the limit after it has appended: all lines but the last fit.\<close>

lemma excerpt_loop_bound:
  "sum_list (map length out) \<le> 500 \<Longrightarrow>
   sum_list (map length (butlast (excerpt_loop out ls))) \<le> 500"
proof (induction ls arbitrary: out)
  case Nil
  then show ?case using sum_butlast_le [of out] by simp
next
  case (Cons l ls)
  then show ?case by (auto simp: Let_def)
qed

lemma excerpt_loop_prefix:
  "\<exists>ys. excerpt_loop out ls = out @ ys \<and> prefix ys (filter (\<lambda>l. l \<noteq> []) (map strip ls))"
proof (induction ls arbitrary: out)
  case Nil
  then show ?case by simp
next
  case (Cons l ls)
  show ?case
  proof (cases "strip l = []")
    case True
    then show ?thesis using Cons [of out] by (auto simp: Let_def)
  next
    case False
    obtain ys where ys: "excerpt_loop (out @ [strip l]) ls = (out @ [strip l]) @ ys"
      "prefix ys (filter (\<lambda>l. l \<noteq> []) (map strip ls))"
      using Cons [of "out @ [strip l]"] by blast
    show ?thesis
    proof (cases "sum_list (map length (out @ [strip l])) > 500")
      case True
      with False have "excerpt_loop out (l # ls) = out @ [strip l]" by (simp add: Let_def)
      with False show ?thesis by simp
    next
      case gt: False
      with False have "excerpt_loop out (l # ls) = out @ (strip l # ys)"
        using ys by (simp add: Let_def)
      with False ys(2) show ?thesis by simp
    qed
  qed
qed

lemma lyrics_SomeD:
  assumes "lyrics_best_effort w a t s = (Some ex, s1)"
  shows "\<exists>lyr. lyrics_http w a t = Response 200 (Json (LyricsStr lyr)) \<and> lyr \<noteq> []
           \<and> ex = join [10] (excerpt_loop [] (splitlines (strip lyr)))"
  using assms
  by (auto simp: lyrics_best_effort_def Let_def
           split: if_splits http.splits body.splits lyrics_field.splits)

lemma two_lines_value:
  "lyrics_best_effort two_lines_world (py ''abba'') (py ''sos'') empty_st
     = (Some (py ''la la'' @ [10] @ py ''na na''),
        \<lparr>files = [], calls = [CallLyrics (py ''abba'') (py ''sos'')]\<rparr>)"
  by (simp add: lyrics_best_effort_def two_lines_world_def quiet_world_def empty_st_def log_def
       py_def splitlines_def strip_def is_space_def is_linebreak_def Let_def)

lemma dropWhile_replicate_keep: "\<not> P c \<Longrightarrow> dropWhile P (replicate n c) = replicate n c"
  by (cases n) simp_all

lemma strip_replicate: "\<not> is_space c \<Longrightarrow> strip (replicate n c) = replicate n c"
  by (simp add: strip_def dropWhile_replicate_keep)

lemma splitlines_from_replicate:
  "\<not> is_linebreak c \<Longrightarrow> splitlines_from cur (replicate (Suc n) c) = [cur @ replicate (Suc n) c]"
proof (induction n arbitrary: cur)
  case 0
  then show ?case by (auto simp: is_linebreak_def)
next
  case (Suc n)
  have "splitlines_from cur (replicate (Suc (Suc n)) c)
          = splitlines_from (cur @ [c]) (replicate (Suc n) c)"
    using Suc.prems by (auto simp: is_linebreak_def)
  then show ?case using Suc.IH [OF Suc.prems, of "cur @ [c]"] by simp
qed

text \<open>
  C2, as the code has it. An excerpt returned by \<open>lyrics_best_effort\<close> is the lines
  \<open>ls\<close> joined by newlines, where \<open>ls\<close> is an initial part, in the order of the text,
  of the non-blank lines of the stripped lyrics, each line whole with the white space
  at its ends removed. The lines before the last hold at most 500 characters together:
  the limit is tested after a line is appended, and the newlines are not counted, so
  the excerpt itself is not bounded by 500.
\<close>

theorem lyrics_excerpt_whole_lines:
  assumes "lyrics_best_effort w a t s = (Some ex, s1)"
  shows "\<exists>lyr ls. lyrics_http w a t = Response 200 (Json (LyricsStr lyr))
           \<and> ex = join [10] ls
           \<and> prefix ls (filter (\<lambda>l. l \<noteq> []) (map strip (splitlines (strip lyr))))
           \<and> sum_list (map length (butlast ls)) \<le> 500"
proof -
  obtain lyr where tx: "lyrics_http w a t = Response 200 (Json (LyricsStr lyr))"
    "ex = join [10] (excerpt_loop [] (splitlines (strip lyr)))"
    using lyrics_SomeD [OF assms] by blast
  have "prefix (excerpt_loop [] (splitlines (strip lyr)))
          (filter (\<lambda>l. l \<noteq> []) (map strip (splitlines (strip lyr))))"
    using excerpt_loop_prefix [of "[]" "splitlines (strip lyr)"] by auto
  moreover have
    "sum_list (map length (butlast (excerpt_loop [] (splitlines (strip lyr))))) \<le> 500"
    by (rule excerpt_loop_bound) simp
  ultimately show ?thesis using tx by blast
qed

theorem lyrics_excerpt_whole_lines_witness:
  "lyrics_best_effort two_lines_world (py ''abba'') (py ''sos'') empty_st
     = (Some (py ''la la'' @ [10] @ py ''na na''),
        \<lparr>files = [], calls = [CallLyrics (py ''abba'') (py ''sos'')]\<rparr>)
   \<and> (\<exists>lyr ls. lyrics_http two_lines_world (py ''abba'') (py ''sos'')
                   = Response 200 (Json (LyricsStr lyr))
           \<and> py ''la la'' @ [10] @ py ''na na'' = join [10] ls
           \<and> prefix ls (filter (\<lambda>l. l \<noteq> []) (map strip (splitlines (strip lyr))))
           \<and> sum_list (map length (butlast ls)) \<le> 500)"
  using two_lines_value lyrics_excerpt_whole_lines [OF two_lines_value] by blast

text \<open>
  C2 as stated fails: for lyrics of one line of 501 letters the excerpt is that line,
  501 characters long.
\<close>

theorem lyrics_excerpt_longer_than_500:
  "fst (lyrics_best_effort long_line_world (py ''abba'') (py ''sos'') empty_st)
     = Some (replicate 501 97)
   \<and> \<not> length (replicate 501 (97::nat)) \<le> 500"
proof -
  have sp: "\<not> is_space 97" "\<not> is_linebreak 97" by (simp_all add: is_space_def is_linebreak_def)
  have a: "strip (replicate 501 97) = replicate 501 97" using sp by (simp add: strip_replicate)
  have "splitlines (replicate (Suc 500) 97) = [replicate (Suc 500) 97]"
    unfolding splitlines_def using splitlines_from_replicate [OF sp(2), of "[]" 500] by simp
  then have b: "splitlines (replicate 501 97) = [replicate 501 97]" by simp
  have c: "replicate 501 (97::nat) \<noteq> []" by simp
  show ?thesis
    by (simp add: lyrics_best_effort_def long_line_world_def quiet_world_def empty_st_def
          py_def a b c Let_def)
qed

section \<open>The fingerprint service\<close>

text \<open>
  C9, as the code has it. With status 200 and a body whose status field is not
  \<open>"ok"\<close>, \<open>acoustid_lookup\<close> returns the empty list. \<open>raise_for_status\<close> raises for
  the codes 400 to 599 only: such a response raises \<open>HTTPError\<close>, and a response with
  any other code, 200 or not, is read like one with 200.
\<close>

theorem acoustid_soft_and_hard:
  "(acoustid_http w fp d k = Response 200 (Json js) \<and> aj_status js \<noteq> Some (py ''ok'')
      \<longrightarrow> fst (acoustid_lookup w fp d k s) = Inr [])
   \<and> (acoustid_http w fp d k = Response code b \<and> 400 \<le> code \<and> code < 600
      \<longrightarrow> fst (acoustid_lookup w fp d k s) = Inl HTTPError)
   \<and> (acoustid_http w fp d k = Response code (Json js) \<and> (code < 400 \<or> 600 \<le> code)
      \<longrightarrow> fst (acoustid_lookup w fp d k s)
            = Inr (if aj_status js = Some (py ''ok'') then aj_results js else []))"
  by (auto simp: acoustid_lookup_def raises_for_status_def Let_def)

theorem acoustid_soft_and_hard_witness:
  "fst (acoustid_lookup acoustid_error_world (py ''AQAA'') 30 (py ''key'') empty_st) = Inr []
   \<and> fst (acoustid_lookup acoustid_503_world (py ''AQAA'') 30 (py ''key'') empty_st) = Inl HTTPError
   \<and> fst (acoustid_lookup acoustid_201_world (py ''AQAA'') 30 (py ''key'') empty_st) = Inr three_matches"
proof -
  have a: "acoustid_http acoustid_error_world (py ''AQAA'') 30 (py ''key'')
             = Response 200 (Json \<lparr>aj_status = Some (py ''error''), aj_results = three_matches\<rparr>)"
    by (simp add: acoustid_error_world_def)
  have b: "acoustid_http acoustid_503_world (py ''AQAA'') 30 (py ''key'') = Response 503 NotJson"
    by (simp add: acoustid_503_world_def)
  have c: "acoustid_http acoustid_201_world (py ''AQAA'') 30 (py ''key'')
             = Response 201 (Json \<lparr>aj_status = Some (py ''ok''), aj_results = three_matches\<rparr>)"
    by (simp add: acoustid_201_world_def)
  have ne: "py ''error'' \<noteq> py ''ok''" by (simp add: py_def)
  from acoustid_soft_and_hard [of acoustid_error_world "py ''AQAA''" 30 "py ''key''"
        "\<lparr>aj_status = Some (py ''error''), aj_results = three_matches\<rparr>" empty_st] a ne
  have 1: "fst (acoustid_lookup acoustid_error_world (py ''AQAA'') 30 (py ''key'') empty_st) = Inr []"
    by simp
  from acoustid_soft_and_hard [of acoustid_503_world "py ''AQAA''" 30 "py ''key''" _ empty_st 503 NotJson] b
  have 2: "fst (acoustid_lookup acoustid_503_world (py ''AQAA'') 30 (py ''key'') empty_st) = Inl HTTPError"
    by simp
  from acoustid_soft_and_hard [of acoustid_201_world "py ''AQAA''" 30 "py ''key''" 
         "\<lparr>aj_status = Some (py ''ok''), aj_results = three_matches\<rparr>" empty_st 201] c
  have 3: "fst (acoustid_lookup acoustid_201_world (py ''AQAA'') 30 (py ''key'') empty_st) = Inr three_matches"
    by simp
  from 1 2 3 show ?thesis by blast
qed

text \<open>C9 as stated fails: a response with status 201 does not raise, its matches are returned.\<close>

theorem acoustid_non_200_not_raising:
  "acoustid_http acoustid_201_world (py ''AQAA'') 30 (py ''key'')
     = Response 201 (Json \<lparr>aj_status = Some (py ''ok''), aj_results = three_matches\<rparr>)
   \<and> fst (acoustid_lookup acoustid_201_world (py ''AQAA'') 30 (py ''key'') empty_st) = Inr three_matches"
  by (simp add: acoustid_lookup_def acoustid_201_world_def quiet_world_def raises_for_status_def Let_def)

section \<open>The audio path without a fingerprint\<close>

lemma run_ffmpeg_calls:
  "run_ffmpeg_cmd w i out s = (r, s1) \<Longrightarrow>
   filter text_search_call (calls s1) = filter text_search_call (calls s)"
  by (auto simp: run_ffmpeg_cmd_def log_def create_def Let_def split: ffmpeg_exit.splits if_splits)

lemma extract_file_calls:
  "extract_audio_from_file w p s = (r, s1) \<Longrightarrow>
   filter text_search_call (calls s1) = filter text_search_call (calls s)"
  by (auto simp: extract_audio_from_file_def Let_def split: prod.splits sum.splits
           dest: run_ffmpeg_calls)

lemma download_calls:
  "download_and_convert w u s = (r, s1) \<Longrightarrow>
   filter text_search_call (calls s1) = filter text_search_call (calls s)"
  by (auto simp: download_and_convert_def log_def create_def Let_def
           split: prod.splits sum.splits list.splits if_splits
           dest!: run_ffmpeg_calls)

lemma extract_url_calls:
  "extract_audio_from_url w u s = (r, s1) \<Longrightarrow>
   filter text_search_call (calls s1) = filter text_search_call (calls s)"
  by (auto simp: extract_audio_from_url_def cleanup_tmpdir_def split: prod.splits
           dest!: download_calls)

lemma normalize_calls:
  "normalize w inp s = (r, s1) \<Longrightarrow>
   filter text_search_call (calls s1) = filter text_search_call (calls s)"
  by (auto simp: normalize_def split: if_splits dest: extract_file_calls extract_url_calls)

lemma normalize_clip_quiet:
  "normalize quiet_world (py ''clip.ogg'') empty_st
     = (Inr (UserPath (py ''clip.ogg.wav'')),
        \<lparr>files = [UserPath (py ''clip.ogg.wav'')],
         calls = [CallFfmpeg (UserPath (py ''clip.ogg'')) (UserPath (py ''clip.ogg.wav''))]\<rparr>)"
  by (simp add: normalize_def is_url_def strip_def is_space_def py_def fold_case_def
        extract_audio_from_file_def run_ffmpeg_cmd_def log_def create_def quiet_world_def
        empty_st_def Let_def)

lemma normalize_url_key:
  "normalize key_world (py '' HTTPS://x.example/v '') empty_st
     = (Inr MkstempFile,
        \<lparr>files = [MkstempFile],
         calls = [CallYtdlp (py '' HTTPS://x.example/v ''),
                  CallFfmpeg (TmpDirEntry (py ''dl.webm'')) (TmpDirEntry (py ''audio.wav'')),
                  CallFfmpeg (TmpDirEntry (py ''audio.wav'')) MkstempFile]\<rparr>)"
  by (simp add: normalize_def is_url_def strip_def is_space_def py_def fold_case_def
        extract_audio_from_url_def download_and_convert_def cleanup_tmpdir_def listdir_def
        List.map_filter_def
        run_ffmpeg_cmd_def log_def create_def quiet_world_def key_world_def
        empty_st_def Let_def)

text \<open>
  C5. When the input has been converted and the fingerprint key is unset or the
  fingerprinter fails, \<open>identify_from_audio_input\<close> returns \<open>None\<close> and raises nothing.
  After the conversion it makes no call but the attempt to fingerprint (none when the
  key is unset), and the whole call makes no text search of any catalogue.
\<close>

theorem audio_without_fingerprint_absent:
  assumes "normalize w inp s = (Inr wav, s1)"
    and "acoustid_api_key w = [] \<or> fingerprint_file w wav = None"
  shows "fst (identify_from_audio_input w inp ua s) = Inr None
     \<and> calls (snd (identify_from_audio_input w inp ua s))
         = calls s1 @ (if acoustid_api_key w = [] then [] else [CallFingerprint wav])
     \<and> filter text_search_call (calls (snd (identify_from_audio_input w inp ua s)))
         = filter text_search_call (calls s)"
proof -
  have r: "identify_from_audio_input w inp ua s
        = (Inr None, if acoustid_api_key w = [] then s1 else log (CallFingerprint wav) s1)"
    using assms by (auto simp: identify_from_audio_input_def chromaprint_fingerprint_def)
  have "filter text_search_call (calls s1) = filter text_search_call (calls s)"
    using assms(1) by (rule normalize_calls)
  then show ?thesis unfolding r by (simp add: log_def)
qed

theorem audio_without_fingerprint_absent_witness:
  "fst (identify_from_audio_input quiet_world (py ''clip.ogg'') (py ''ua'') empty_st) = Inr None
   \<and> calls (snd (identify_from_audio_input quiet_world (py ''clip.ogg'') (py ''ua'') empty_st))
       = [CallFfmpeg (UserPath (py ''clip.ogg'')) (UserPath (py ''clip.ogg.wav''))]
   \<and> fst (identify_from_audio_input key_world (py '' HTTPS://x.example/v '') (py ''ua'') empty_st)
       = Inr None
   \<and> calls (snd (identify_from_audio_input key_world (py '' HTTPS://x.example/v '') (py ''ua'')
                    empty_st))
       = [CallYtdlp (py '' HTTPS://x.example/v ''),
          CallFfmpeg (TmpDirEntry (py ''dl.webm'')) (TmpDirEntry (py ''audio.wav'')),
          CallFfmpeg (TmpDirEntry (py ''audio.wav'')) MkstempFile,
          CallFingerprint MkstempFile]"
proof -
  have k1: "acoustid_api_key quiet_world = [] \<or> fingerprint_file quiet_world (UserPath (py ''clip.ogg.wav'')) = None"
    by (simp add: quiet_world_def)
  have k2: "acoustid_api_key key_world = [] \<or> fingerprint_file key_world MkstempFile = None"
    by (simp add: quiet_world_def key_world_def)
  have k3: "acoustid_api_key quiet_world = []" "acoustid_api_key key_world \<noteq> []"
    by (simp_all add: quiet_world_def key_world_def py_def)
  from audio_without_fingerprint_absent [OF normalize_clip_quiet k1, of "py ''ua''"]
       audio_without_fingerprint_absent [OF normalize_url_key k2, of "py ''ua''"] k3
  show ?thesis by simp
qed

section \<open>The audio path with matches\<close>

lemma only_logs_iff:
  "only_logs P s s1 \<longleftrightarrow> files s1 = files s \<and> (\<exists>ex. calls s1 = calls s @ ex \<and> list_all P ex)"
proof
  assume a: "only_logs P s s1"
  have "calls s1 = take (length (calls s)) (calls s1) @ drop (length (calls s)) (calls s1)"
    by simp
  with a have "calls s1 = calls s @ drop (length (calls s)) (calls s1)"
    by (simp add: only_logs_def)
  with a show "files s1 = files s \<and> (\<exists>ex. calls s1 = calls s @ ex \<and> list_all P ex)"
    unfolding only_logs_def by blast
next
  assume "files s1 = files s \<and> (\<exists>ex. calls s1 = calls s @ ex \<and> list_all P ex)"
  then show "only_logs P s s1" by (auto simp: only_logs_def)
qed

lemma only_logs_refl: "only_logs P s s"
  by (simp add: only_logs_def)

lemma only_logs_trans: "only_logs P s s1 \<Longrightarrow> only_logs P s1 s2 \<Longrightarrow> only_logs P s s2"
  by (auto simp: only_logs_iff)

lemma only_logs_log: "P c \<Longrightarrow> only_logs P s (log c s)"
  by (simp add: only_logs_def log_def)


lemma mb_lookup_logs:
  "mb_lookup_recording w m ua s = (r, s1) \<Longrightarrow> s1 = log (CallMbLookup m) s"
  by (auto simp: mb_lookup_recording_def Let_def split: http.splits body.splits if_splits)

lemma cover_only_logs:
  "cover_art_from_release w rel s = (r, s1) \<Longrightarrow> only_logs enrich_call s s1"
  by (auto simp: cover_art_from_release_def Let_def only_logs_log split: http.splits)

lemma token_only_logs:
  "spotify_token w s = (r, s1) \<Longrightarrow> only_logs enrich_call s s1"
  by (auto simp: spotify_token_def spotify_client_credentials_token_def Let_def
        only_logs_log only_logs_refl split: http.splits body.splits if_splits)

lemma search_only_logs:
  "spotify_search_track w q tok n s = (r, s1) \<Longrightarrow> only_logs enrich_call s s1"
  by (auto simp: spotify_search_track_def Let_def only_logs_log split: http.splits body.splits if_splits)

lemma lyrics_only_logs:
  "lyrics_best_effort w a t s = (r, s1) \<Longrightarrow> only_logs enrich_call s s1"
  by (auto simp: lyrics_best_effort_def Let_def only_logs_log only_logs_refl
        split: http.splits body.splits lyrics_field.splits if_splits)

lemma cover_step_only_logs:
  assumes "(case rels of [] \<Rightarrow> (None, s) | rel # rest \<Rightarrow> cover_art_from_release w rel s) = (c, s1)"
  shows "only_logs enrich_call s s1"
proof (cases rels)
  case Nil
  with assms show ?thesis by (simp add: only_logs_refl)
next
  case (Cons rel rest)
  with assms have "cover_art_from_release w rel s = (c, s1)" by simp
  then show ?thesis by (rule cover_only_logs)
qed

lemma enrich_only_logs:
  assumes "enrich_spotify_and_cover w t a c s = (r, s2)"
  shows "only_logs enrich_call s s2"
proof -
  obtain tr s1 where tk: "spotify_token w s = (tr, s1)" by (cases "spotify_token w s")
  have l1: "only_logs enrich_call s s1" using tk by (rule token_only_logs)
  show ?thesis
  proof (cases tr)
    case (Inl e)
    with assms tk l1 show ?thesis by (simp add: enrich_spotify_and_cover_def)
  next
    case (Inr tok)
    show ?thesis
    proof (cases "truthy tok")
      case False
      with assms tk Inr l1 show ?thesis by (simp add: enrich_spotify_and_cover_def)
    next
      case True
      obtain sr s3 where se:
        "spotify_search_track w (strip (fmt t @ [32] @ a)) (or_empty tok) 1 s1 = (sr, s3)"
        by (cases "spotify_search_track w (strip (fmt t @ [32] @ a)) (or_empty tok) 1 s1")
      have l2: "only_logs enrich_call s1 s3" using se by (rule search_only_logs)
      have "s2 = s3" using assms tk Inr True se
        by (auto simp: enrich_spotify_and_cover_def Let_def split: sum.splits list.splits)
      with l1 l2 show ?thesis by (auto intro: only_logs_trans)
    qed
  qed
qed

lemma result_of_recording_unfold:
  assumes lk: "mb_lookup_recording w (ar_id r) ua s = (Inr info, s1)"
    and cv: "(case rec_releases info of [] \<Rightarrow> (None, s1)
                 | rel # rels \<Rightarrow> cover_art_from_release w rel s1) = (c, s2)"
    and en: "enrich_spotify_and_cover w (rec_title info)
               (join (py '', '') (artist_names (rec_artist_credit info))) c s2 = (er, s3)"
    and lr: "lyrics_best_effort w
               (first_artist (join (py '', '') (artist_names (rec_artist_credit info))))
               (or_empty (rec_title info)) s3 = (ly, s4)"
  shows "result_of_recording w r ua s =
       (case er of Inl e \<Rightarrow> (Inl e, s3)
        | Inr t \<Rightarrow>
            (Inr (Some \<lparr>title = rec_title info,
                         artists = join (py '', '') (artist_names (rec_artist_credit info)),
                         cover_url = snd (snd t),
                         mbid = ar_id r, spotify_link = fst t,
                         spotify_preview = fst (snd t), lyrics_excerpt = ly\<rparr>), s4))"
  unfolding result_of_recording_def lk prod.case sum.case Let_def cv en
  by (cases er) (simp_all only: sum.case prod.case lr split_beta fst_conv snd_conv)

text \<open>What \<open>result_of_recording\<close> does: one lookup of the recording's id, then enrichment calls only.\<close>

lemma result_of_recording_cases:
  obtains (failed) e where
      "result_of_recording w r ua s = (Inl e, log (CallMbLookup (ar_id r)) s)"
  | (enrich_failed) info e s3 where
      "mb_lookup_recording w (ar_id r) ua s = (Inr info, log (CallMbLookup (ar_id r)) s)"
      "only_logs enrich_call (log (CallMbLookup (ar_id r)) s) s3"
      "result_of_recording w r ua s = (Inl e, s3)"
  | (found) info t ly s4 where
      "mb_lookup_recording w (ar_id r) ua s = (Inr info, log (CallMbLookup (ar_id r)) s)"
      "only_logs enrich_call (log (CallMbLookup (ar_id r)) s) s4"
      "result_of_recording w r ua s =
         (Inr (Some \<lparr>title = rec_title info,
                      artists = join (py '', '') (artist_names (rec_artist_credit info)),
                      cover_url = snd (snd t),
                      mbid = ar_id r, spotify_link = fst t,
                      spotify_preview = fst (snd t), lyrics_excerpt = ly\<rparr>), s4)"
proof -
  obtain lr s1 where lk0: "mb_lookup_recording w (ar_id r) ua s = (lr, s1)"
    by (cases "mb_lookup_recording w (ar_id r) ua s")
  have s1: "s1 = log (CallMbLookup (ar_id r)) s" using lk0 by (rule mb_lookup_logs)
  show ?thesis
  proof (cases lr)
    case (Inl e)
    with lk0 s1 have "result_of_recording w r ua s = (Inl e, log (CallMbLookup (ar_id r)) s)"
      by (simp add: result_of_recording_def)
    then show ?thesis by (rule failed)
  next
    case (Inr info)
    with lk0 have lk: "mb_lookup_recording w (ar_id r) ua s = (Inr info, s1)" by simp
    obtain c s2 where cv: "(case rec_releases info of [] \<Rightarrow> (None, s1)
                 | rel # rels \<Rightarrow> cover_art_from_release w rel s1) = (c, s2)"
      by (cases "(case rec_releases info of [] \<Rightarrow> (None, s1)
                 | rel # rels \<Rightarrow> cover_art_from_release w rel s1)")
    have l1: "only_logs enrich_call s1 s2" using cv by (rule cover_step_only_logs)
    obtain er s3 where en: "enrich_spotify_and_cover w (rec_title info)
               (join (py '', '') (artist_names (rec_artist_credit info))) c s2 = (er, s3)"
      by (cases "enrich_spotify_and_cover w (rec_title info)
               (join (py '', '') (artist_names (rec_artist_credit info))) c s2")
    have l2: "only_logs enrich_call s2 s3" using en by (rule enrich_only_logs)
    obtain ly s4 where lr: "lyrics_best_effort w
               (first_artist (join (py '', '') (artist_names (rec_artist_credit info))))
               (or_empty (rec_title info)) s3 = (ly, s4)"
      by (cases "lyrics_best_effort w
               (first_artist (join (py '', '') (artist_names (rec_artist_credit info))))
               (or_empty (rec_title info)) s3")
    have l3: "only_logs enrich_call s3 s4" using lr by (rule lyrics_only_logs)
    have l13: "only_logs enrich_call s1 s3" using l1 l2 by (rule only_logs_trans)
    have l14: "only_logs enrich_call s1 s4" using l13 l3 by (rule only_logs_trans)
    note u = result_of_recording_unfold [OF lk cv en lr]
    show ?thesis
    proof (cases er)
      case (Inl e)
      with u have "result_of_recording w r ua s = (Inl e, s3)" by simp
      with lk l13 show ?thesis unfolding s1 by (rule enrich_failed)
    next
      case (Inr t)
      with u have "result_of_recording w r ua s =
         (Inr (Some \<lparr>title = rec_title info,
                      artists = join (py '', '') (artist_names (rec_artist_credit info)),
                      cover_url = snd (snd t),
                      mbid = ar_id r, spotify_link = fst t,
                      spotify_preview = fst (snd t), lyrics_excerpt = ly\<rparr>), s4)" by simp
      with lk l14 show ?thesis unfolding s1 by (rule found)
    qed
  qed
qed

lemma only_logs_after_log:
  assumes "only_logs P (log c s) s1"
  shows "files s1 = files s \<and> (\<exists>ex. calls s1 = calls s @ c # ex \<and> list_all P ex)"
  using assms by (auto simp: only_logs_iff log_def)

lemma result_of_recording_trace:
  "files (snd (result_of_recording w r ua s)) = files s
   \<and> (\<exists>ex. calls (snd (result_of_recording w r ua s)) = calls s @ CallMbLookup (ar_id r) # ex
          \<and> list_all enrich_call ex)"
proof (cases rule: result_of_recording_cases [where w=w and r=r and ua=ua and s=s])
  case (failed e)
  then show ?thesis by (simp add: log_def)
next
  case (enrich_failed info e s3)
  from only_logs_after_log [OF enrich_failed(2)] enrich_failed(3) show ?thesis by simp
next
  case (found info t ly s4)
  from only_logs_after_log [OF found(2)] found(3) show ?thesis by simp
qed

lemma result_of_recording_fields:
  assumes "fst (result_of_recording w r ua s) = Inr (Some res)"
  shows "mbid res = ar_id r
         \<and> (\<exists>info. fst (mb_lookup_recording w (ar_id r) ua s) = Inr info
               \<and> title res = rec_title info
               \<and> artists res = join (py '', '') (artist_names (rec_artist_credit info)))"
proof (cases rule: result_of_recording_cases [where w=w and r=r and ua=ua and s=s])
  case (failed e)
  with assms show ?thesis by simp
next
  case (enrich_failed info e s3)
  with assms show ?thesis by simp
next
  case (found info t ly s4)
  with assms have "res = \<lparr>title = rec_title info,
                      artists = join (py '', '') (artist_names (rec_artist_credit info)),
                      cover_url = snd (snd t),
                      mbid = ar_id r, spotify_link = fst t,
                      spotify_preview = fst (snd t), lyrics_excerpt = ly\<rparr>" by simp
  with found(1) show ?thesis by simp
qed

lemma result_of_recording_not_absent:
  "fst (result_of_recording w r ua s) \<noteq> Inr None"
  by (cases rule: result_of_recording_cases [where w=w and r=r and ua=ua and s=s]) simp_all

text \<open>
  C7. When the fingerprint service has returned a non-empty list of matches,
  \<open>identify_from_audio_input\<close> goes on with one match \<open>best\<close> of the list: every match
  before it in the service's order has a smaller score and every match after it has at
  most its score (a missing score counts as 0), so it has the greatest score and is the
  first of those that have it. If \<open>best\<close> has no recording the call returns \<open>None\<close>.
  Otherwise the call is the rest of the pipeline run on the first recording of \<open>best\<close>
  and on no other: the next call made is the lookup of that recording's id, all later
  calls are enrichment calls, and a result returned carries that id.
\<close>

theorem audio_top_match_first_recording:
  assumes n: "normalize w inp s = (Inr wav, s1)"
    and k: "acoustid_api_key w \<noteq> []"
    and f: "chromaprint_fingerprint w wav s1 = (Some (fp, dur), s2)"
    and a: "acoustid_lookup w fp dur (acoustid_api_key w) s2 = (Inr matches, s3)"
    and ne: "matches \<noteq> []"
  shows "\<exists>best pre post. matches = pre @ best # post
     \<and> (\<forall>m\<in>set pre. (case am_score m of None \<Rightarrow> 0 | Some v \<Rightarrow> v)
                        < (case am_score best of None \<Rightarrow> 0 | Some v \<Rightarrow> v))
     \<and> (\<forall>m\<in>set post. (case am_score m of None \<Rightarrow> 0 | Some v \<Rightarrow> v)
                        \<le> (case am_score best of None \<Rightarrow> 0 | Some v \<Rightarrow> v))
     \<and> (case am_recordings best of
           [] \<Rightarrow> identify_from_audio_input w inp ua s = (Inr None, s3)
         | r # rs \<Rightarrow>
             identify_from_audio_input w inp ua s = result_of_recording w r ua s3
             \<and> (\<exists>ex. calls (snd (identify_from_audio_input w inp ua s))
                        = calls s3 @ CallMbLookup (ar_id r) # ex
                     \<and> list_all enrich_call ex)
             \<and> (\<forall>res. fst (identify_from_audio_input w inp ua s) = Inr (Some res)
                     \<longrightarrow> mbid res = ar_id r))"
proof -
  obtain best pre post where h:
    "matches = pre @ best # post"
    "\<forall>m\<in>set pre. score_key m < score_key best" "\<forall>m\<in>set post. score_key m \<le> score_key best"
    "top_recording matches = (case am_recordings best of [] \<Rightarrow> None | r # rs \<Rightarrow> Some r)"
    using top_recording_first_maximum [OF ne] by blast
  have u: "identify_from_audio_input w inp ua s
             = (case top_recording matches of
                  None \<Rightarrow> (Inr None, s3)
                | Some r \<Rightarrow> result_of_recording w r ua s3)"
    using n k f a by (simp add: identify_from_audio_input_def)
  have t: "case am_recordings best of
           [] \<Rightarrow> identify_from_audio_input w inp ua s = (Inr None, s3)
         | r # rs \<Rightarrow>
             identify_from_audio_input w inp ua s = result_of_recording w r ua s3
             \<and> (\<exists>ex. calls (snd (identify_from_audio_input w inp ua s))
                        = calls s3 @ CallMbLookup (ar_id r) # ex
                     \<and> list_all enrich_call ex)
             \<and> (\<forall>res. fst (identify_from_audio_input w inp ua s) = Inr (Some res)
                     \<longrightarrow> mbid res = ar_id r)"
  proof (cases "am_recordings best")
    case Nil
    with u h(4) show ?thesis by simp
  next
    case (Cons r rs)
    with u h(4) have e: "identify_from_audio_input w inp ua s = result_of_recording w r ua s3"
      by simp
    have "\<exists>ex. calls (snd (result_of_recording w r ua s3)) = calls s3 @ CallMbLookup (ar_id r) # ex
              \<and> list_all enrich_call ex"
      using result_of_recording_trace [of w r ua s3] by blast
    moreover have "\<forall>res. fst (result_of_recording w r ua s3) = Inr (Some res) \<longrightarrow> mbid res = ar_id r"
      using result_of_recording_fields [of w r ua s3] by blast
    ultimately show ?thesis unfolding Cons e by simp
  qed
  from h(1) h(2) h(3) t show ?thesis unfolding score_key_def by blast
qed

lemma normalize_clip_match:
  "normalize match_world (py ''clip.ogg'') empty_st
     = (Inr (UserPath (py ''clip.ogg.wav'')),
        \<lparr>files = [UserPath (py ''clip.ogg.wav'')],
         calls = [CallFfmpeg (UserPath (py ''clip.ogg'')) (UserPath (py ''clip.ogg.wav''))]\<rparr>)"
  by (simp add: normalize_def is_url_def strip_def is_space_def py_def fold_case_def
        extract_audio_from_file_def run_ffmpeg_cmd_def log_def create_def quiet_world_def
        match_world_def empty_st_def Let_def)

lemma fingerprint_clip_match:
  "chromaprint_fingerprint match_world (UserPath (py ''clip.ogg.wav''))
      \<lparr>files = [UserPath (py ''clip.ogg.wav'')],
       calls = [CallFfmpeg (UserPath (py ''clip.ogg'')) (UserPath (py ''clip.ogg.wav''))]\<rparr>
     = (Some (py ''AQAA'', 12),
        \<lparr>files = [UserPath (py ''clip.ogg.wav'')],
         calls = [CallFfmpeg (UserPath (py ''clip.ogg'')) (UserPath (py ''clip.ogg.wav'')),
                  CallFingerprint (UserPath (py ''clip.ogg.wav''))]\<rparr>)"
  by (simp add: chromaprint_fingerprint_def match_world_def quiet_world_def py_int_def log_def)

lemma acoustid_clip_match:
  "acoustid_lookup match_world (py ''AQAA'') 12 (acoustid_api_key match_world)
      \<lparr>files = [UserPath (py ''clip.ogg.wav'')],
         calls = [CallFfmpeg (UserPath (py ''clip.ogg'')) (UserPath (py ''clip.ogg.wav'')),
                  CallFingerprint (UserPath (py ''clip.ogg.wav''))]\<rparr>
     = (Inr three_matches,
        \<lparr>files = [UserPath (py ''clip.ogg.wav'')],
         calls = [CallFfmpeg (UserPath (py ''clip.ogg'')) (UserPath (py ''clip.ogg.wav'')),
                  CallFingerprint (UserPath (py ''clip.ogg.wav'')),
                  CallAcoustid (py ''AQAA'') 12 (py ''key'')]\<rparr>)"
  by (simp add: acoustid_lookup_def match_world_def quiet_world_def raises_for_status_def
        log_def Let_def)

lemma identify_clip_match:
  "identify_from_audio_input match_world (py ''clip.ogg'') (py ''ua'') empty_st
     = (Inr (Some \<lparr>title = Some (py ''Song''), artists = py ''Ann'', cover_url = None,
                   mbid = Some (py ''r2''), spotify_link = None, spotify_preview = None,
                   lyrics_excerpt = None\<rparr>),
        \<lparr>files = [UserPath (py ''clip.ogg.wav'')],
         calls = [CallFfmpeg (UserPath (py ''clip.ogg'')) (UserPath (py ''clip.ogg.wav'')),
                  CallFingerprint (UserPath (py ''clip.ogg.wav'')),
                  CallAcoustid (py ''AQAA'') 12 (py ''key''),
                  CallMbLookup (Some (py ''r2'')),
                  CallLyrics (py ''Ann'') (py ''Song'')]\<rparr>)"
proof -
  have k: "acoustid_api_key match_world \<noteq> []" by (simp add: match_world_def py_def)
  have t: "top_recording three_matches = Some \<lparr>ar_id = Some (py ''r2'')\<rparr>"
    by (simp add: top_recording_def sorted_reverse_def score_key_def three_matches_def)
  have r: "result_of_recording match_world \<lparr>ar_id = Some (py ''r2'')\<rparr> (py ''ua'')
             \<lparr>files = [UserPath (py ''clip.ogg.wav'')],
         calls = [CallFfmpeg (UserPath (py ''clip.ogg'')) (UserPath (py ''clip.ogg.wav'')),
                  CallFingerprint (UserPath (py ''clip.ogg.wav'')),
                  CallAcoustid (py ''AQAA'') 12 (py ''key'')]\<rparr>
     = (Inr (Some \<lparr>title = Some (py ''Song''), artists = py ''Ann'', cover_url = None,
                   mbid = Some (py ''r2''), spotify_link = None, spotify_preview = None,
                   lyrics_excerpt = None\<rparr>),
        \<lparr>files = [UserPath (py ''clip.ogg.wav'')],
         calls = [CallFfmpeg (UserPath (py ''clip.ogg'')) (UserPath (py ''clip.ogg.wav'')),
                  CallFingerprint (UserPath (py ''clip.ogg.wav'')),
                  CallAcoustid (py ''AQAA'') 12 (py ''key''),
                  CallMbLookup (Some (py ''r2'')),
                  CallLyrics (py ''Ann'') (py ''Song'')]\<rparr>)"
    by (simp add: result_of_recording_def mb_lookup_recording_def match_world_def quiet_world_def
          raises_for_status_def log_def Let_def artist_names_def truthy_def or_empty_def
          enrich_spotify_and_cover_def spotify_token_def lyrics_best_effort_def first_artist_def
          first_of_split_comma_def strip_def is_space_def py_def)
  show ?thesis
    unfolding identify_from_audio_input_def normalize_clip_match prod.case sum.case
      fingerprint_clip_match acoustid_clip_match t option.case r
    using k by simp
qed

theorem audio_top_match_first_recording_witness:
  "normalize match_world (py ''clip.ogg'') empty_st
     = (Inr (UserPath (py ''clip.ogg.wav'')),
        \<lparr>files = [UserPath (py ''clip.ogg.wav'')],
         calls = [CallFfmpeg (UserPath (py ''clip.ogg'')) (UserPath (py ''clip.ogg.wav''))]\<rparr>)
   \<and> acoustid_api_key match_world \<noteq> []
   \<and> acoustid_lookup match_world (py ''AQAA'') 12 (acoustid_api_key match_world)
        \<lparr>files = [UserPath (py ''clip.ogg.wav'')],
         calls = [CallFfmpeg (UserPath (py ''clip.ogg'')) (UserPath (py ''clip.ogg.wav'')),
                  CallFingerprint (UserPath (py ''clip.ogg.wav''))]\<rparr>
       = (Inr three_matches,
         \<lparr>files = [UserPath (py ''clip.ogg.wav'')],
          calls = [CallFfmpeg (UserPath (py ''clip.ogg'')) (UserPath (py ''clip.ogg.wav'')),
                   CallFingerprint (UserPath (py ''clip.ogg.wav'')),
                   CallAcoustid (py ''AQAA'') 12 (py ''key'')]\<rparr>)
   \<and> three_matches \<noteq> []
   \<and> (\<exists>best pre post. three_matches = pre @ best # post
     \<and> (\<forall>m\<in>set pre. (case am_score m of None \<Rightarrow> 0 | Some v \<Rightarrow> v)
                        < (case am_score best of None \<Rightarrow> 0 | Some v \<Rightarrow> v))
     \<and> (\<forall>m\<in>set post. (case am_score m of None \<Rightarrow> 0 | Some v \<Rightarrow> v)
                        \<le> (case am_score best of None \<Rightarrow> 0 | Some v \<Rightarrow> v))
     \<and> (case am_recordings best of
           [] \<Rightarrow> identify_from_audio_input match_world (py ''clip.ogg'') (py ''ua'') empty_st =
                (Inr None,
         \<lparr>files = [UserPath (py ''clip.ogg.wav'')],
          calls = [CallFfmpeg (UserPath (py ''clip.ogg'')) (UserPath (py ''clip.ogg.wav'')),
                   CallFingerprint (UserPath (py ''clip.ogg.wav'')),
                   CallAcoustid (py ''AQAA'') 12 (py ''key'')]\<rparr>)
         | r # rs \<Rightarrow>
             identify_from_audio_input match_world (py ''clip.ogg'') (py ''ua'') empty_st =
               result_of_recording match_world r (py ''ua'')
         \<lparr>files = [UserPath (py ''clip.ogg.wav'')],
          calls = [CallFfmpeg (UserPath (py ''clip.ogg'')) (UserPath (py ''clip.ogg.wav'')),
                   CallFingerprint (UserPath (py ''clip.ogg.wav'')),
                   CallAcoustid (py ''AQAA'') 12 (py ''key'')]\<rparr>
             \<and> (\<exists>ex. calls (snd (identify_from_audio_input match_world (py ''clip.ogg'') (py ''ua'') empty_st))
                        = calls
         \<lparr>files = [UserPath (py ''clip.ogg.wav'')],
          calls = [CallFfmpeg (UserPath (py ''clip.ogg'')) (UserPath (py ''clip.ogg.wav'')),
                   CallFingerprint (UserPath (py ''clip.ogg.wav'')),
                   CallAcoustid (py ''AQAA'') 12 (py ''key'')]\<rparr>
                          @ CallMbLookup (ar_id r) # ex
                     \<and> list_all enrich_call ex)
             \<and> (\<forall>res. fst (identify_from_audio_input match_world (py ''clip.ogg'') (py ''ua'') empty_st) = Inr (Some res)
                     \<longrightarrow> mbid res = ar_id r)))
   \<and> identify_from_audio_input match_world (py ''clip.ogg'') (py ''ua'') empty_st
       = (Inr (Some \<lparr>title = Some (py ''Song''), artists = py ''Ann'', cover_url = None,
                     mbid = Some (py ''r2''), spotify_link = None, spotify_preview = None,
                     lyrics_excerpt = None\<rparr>),
          \<lparr>files = [UserPath (py ''clip.ogg.wav'')],
           calls = [CallFfmpeg (UserPath (py ''clip.ogg'')) (UserPath (py ''clip.ogg.wav'')),
                    CallFingerprint (UserPath (py ''clip.ogg.wav'')),
                    CallAcoustid (py ''AQAA'') 12 (py ''key''),
                    CallMbLookup (Some (py ''r2'')),
                    CallLyrics (py ''Ann'') (py ''Song'')]\<rparr>)"
proof -
  have k: "acoustid_api_key match_world \<noteq> []" by (simp add: match_world_def py_def)
  have ne: "three_matches \<noteq> []" by (simp add: three_matches_def)
  note th = audio_top_match_first_recording [OF normalize_clip_match k fingerprint_clip_match
              acoustid_clip_match ne, of "py ''ua''"]
  show ?thesis
    by (intro conjI) (rule normalize_clip_match k acoustid_clip_match ne th identify_clip_match)+
qed

section \<open>Failures of the enrichment steps\<close>

text \<open>
  C1. The Spotify step of the enrichment is not fault-tolerant. For a recording found by
  the metadata search, with cover art and lyrics available, a Spotify search that
  answers with status 500 makes \<open>identify_from_text\<close> raise \<open>HTTPError\<close>: no result is
  returned, the cover found before is lost and the lyrics are never asked for. In the
  same world with a Spotify search that answers, the result holds the cover and the
  lyrics. (\<open>cover_art_from_release\<close> and \<open>lyrics_best_effort\<close> catch every exception;
  \<open>_enrich_spotify_and_cover\<close> does not catch what \<open>spotify_search_track\<close> raises.)
\<close>

theorem spotify_search_failure_aborts_identification:
  "identify_from_text spotify_down_world (py ''Song'') (py ''ua'') empty_st
     = (Inl HTTPError,
        \<lparr>files = [],
         calls = [CallMbSearch (py ''Song''), CallCoverArt (py ''rel1''), CallSpotifyToken,
                  CallSpotifySearch (py ''Song Ann'')]\<rparr>)
   \<and> identify_from_text spotify_empty_world (py ''Song'') (py ''ua'') empty_st
     = (Inr (Some \<lparr>title = Some (py ''Song''), artists = py ''Ann'',
                   cover_url = Some (py ''https://coverartarchive.org/release/rel1/front''),
                   mbid = Some (py ''r1''), spotify_link = None, spotify_preview = None,
                   lyrics_excerpt = Some (py ''la la'')\<rparr>),
        \<lparr>files = [],
         calls = [CallMbSearch (py ''Song''), CallCoverArt (py ''rel1''), CallSpotifyToken,
                  CallSpotifySearch (py ''Song Ann''), CallLyrics (py ''Ann'') (py ''Song'')]\<rparr>)"
  by (simp add: identify_from_text_def mb_search_recordings_def result_of_pick_def
        cover_art_from_release_def enrich_spotify_and_cover_def spotify_token_def
        spotify_client_credentials_token_def spotify_search_track_def lyrics_best_effort_def
        spotify_down_world_def spotify_empty_world_def quiet_world_def empty_st_def
        raises_for_status_def log_def Let_def artist_names_def truthy_def or_empty_def fmt_def
        first_artist_def first_of_split_comma_def splitlines_def
        strip_def is_space_def is_linebreak_def py_def)

section \<open>The text path\<close>

lemma join_eq_Nil:
  assumes "\<forall>x\<in>set xs. x \<noteq> []"
  shows "join sep xs = [] \<longleftrightarrow> xs = []"
  using assms by (induction sep xs rule: join.induct) auto

lemma artist_names_nonempty: "\<forall>x\<in>set (artist_names cs). x \<noteq> []"
  by (auto simp: artist_names_def truthy_def or_empty_def split: option.splits)

lemma join_artist_names_Nil:
  "join sep (artist_names cs) = [] \<longleftrightarrow> artist_names cs = []"
  using artist_names_nonempty by (rule join_eq_Nil)

lemma result_of_pick_unfold:
  assumes cv: "(case rec_releases pick of [] \<Rightarrow> (None, s)
                 | rel # rels \<Rightarrow> cover_art_from_release w rel s) = (c, s1)"
    and a: "a = (if join (py '', '') (artist_names (rec_artist_credit pick)) \<noteq> []
                 then join (py '', '') (artist_names (rec_artist_credit pick))
                 else py ''Unknown'')"
    and en: "enrich_spotify_and_cover w (Some (or_empty (rec_title pick))) a c s1 = (er, s2)"
    and lr: "lyrics_best_effort w (first_artist a) (or_empty (rec_title pick)) s2 = (ly, s4)"
  shows "result_of_pick w pick s =
       (case er of Inl e \<Rightarrow> (Inl e, s2)
        | Inr t \<Rightarrow>
            (Inr (Some \<lparr>title = rec_title pick, artists = a, cover_url = snd (snd t),
                         mbid = rec_id pick, spotify_link = fst t,
                         spotify_preview = fst (snd t), lyrics_excerpt = ly\<rparr>), s4))"
proof -
  have en': "enrich_spotify_and_cover w (Some (or_empty (rec_title pick)))
               (if join (py '', '') (artist_names (rec_artist_credit pick)) \<noteq> []
                 then join (py '', '') (artist_names (rec_artist_credit pick))
                 else py ''Unknown'') c s1 = (er, s2)"
    using en unfolding a .
  have lr': "lyrics_best_effort w (first_artist (if join (py '', '') (artist_names (rec_artist_credit pick)) \<noteq> []
                 then join (py '', '') (artist_names (rec_artist_credit pick))
                 else py ''Unknown'')) (or_empty (rec_title pick)) s2 = (ly, s4)"
    using lr unfolding a .
  show ?thesis
    unfolding result_of_pick_def Let_def cv prod.case en' a
    by (cases er) (simp_all only: sum.case prod.case lr' split_beta fst_conv snd_conv)
qed

text \<open>What \<open>result_of_pick\<close> does: enrichment calls only, then the fields of the pick.\<close>

lemma result_of_pick_cases:
  obtains (enrich_failed) e s2 where
      "only_logs enrich_call s s2"
      "result_of_pick w pick s = (Inl e, s2)"
  | (found) t ly s4 where
      "only_logs enrich_call s s4"
      "result_of_pick w pick s =
         (Inr (Some \<lparr>title = rec_title pick,
                      artists = (if join (py '', '') (artist_names (rec_artist_credit pick)) \<noteq> []
                                 then join (py '', '') (artist_names (rec_artist_credit pick))
                                 else py ''Unknown''),
                      cover_url = snd (snd t),
                      mbid = rec_id pick, spotify_link = fst t,
                      spotify_preview = fst (snd t), lyrics_excerpt = ly\<rparr>), s4)"
proof -
  define a where "a = (if join (py '', '') (artist_names (rec_artist_credit pick)) \<noteq> []
                        then join (py '', '') (artist_names (rec_artist_credit pick))
                        else py ''Unknown'')"
  obtain c s1 where cv: "(case rec_releases pick of [] \<Rightarrow> (None, s)
                          | rel # rels \<Rightarrow> cover_art_from_release w rel s) = (c, s1)"
    by (cases "(case rec_releases pick of [] \<Rightarrow> (None, s)
                          | rel # rels \<Rightarrow> cover_art_from_release w rel s)")
  have l1: "only_logs enrich_call s s1" using cv by (rule cover_step_only_logs)
  obtain er s2 where en:
    "enrich_spotify_and_cover w (Some (or_empty (rec_title pick))) a c s1 = (er, s2)"
    by (cases "enrich_spotify_and_cover w (Some (or_empty (rec_title pick))) a c s1")
  have l2: "only_logs enrich_call s1 s2" using en by (rule enrich_only_logs)
  obtain ly s4 where lr:
    "lyrics_best_effort w (first_artist a) (or_empty (rec_title pick)) s2 = (ly, s4)"
    by (cases "lyrics_best_effort w (first_artist a) (or_empty (rec_title pick)) s2")
  have l3: "only_logs enrich_call s2 s4" using lr by (rule lyrics_only_logs)
  have l12: "only_logs enrich_call s s2" using l1 l2 by (rule only_logs_trans)
  have l14: "only_logs enrich_call s s4" using l12 l3 by (rule only_logs_trans)
  note u = result_of_pick_unfold [OF cv a_def en lr]
  show ?thesis
  proof (cases er)
    case (Inl e)
    with u have "result_of_pick w pick s = (Inl e, s2)" by simp
    with l12 show ?thesis by (rule enrich_failed)
  next
    case (Inr t)
    with u have "result_of_pick w pick s =
         (Inr (Some \<lparr>title = rec_title pick,
                      artists = (if join (py '', '') (artist_names (rec_artist_credit pick)) \<noteq> []
                                 then join (py '', '') (artist_names (rec_artist_credit pick))
                                 else py ''Unknown''),
                      cover_url = snd (snd t),
                      mbid = rec_id pick, spotify_link = fst t,
                      spotify_preview = fst (snd t), lyrics_excerpt = ly\<rparr>), s4)"
      unfolding a_def by simp
    with l14 show ?thesis by (rule found)
  qed
qed

lemma result_of_pick_fields:
  assumes "fst (result_of_pick w pick s) = Inr (Some res)"
  shows "mbid res = rec_id pick \<and> title res = rec_title pick
         \<and> artists res = (if artist_names (rec_artist_credit pick) = [] then py ''Unknown''
                          else join (py '', '') (artist_names (rec_artist_credit pick)))"
proof (cases rule: result_of_pick_cases [where w=w and pick=pick and s=s])
  case (enrich_failed e s2)
  with assms show ?thesis by simp
next
  case (found t ly s4)
  with assms have "res = \<lparr>title = rec_title pick,
                      artists = (if join (py '', '') (artist_names (rec_artist_credit pick)) \<noteq> []
                                 then join (py '', '') (artist_names (rec_artist_credit pick))
                                 else py ''Unknown''),
                      cover_url = snd (snd t),
                      mbid = rec_id pick, spotify_link = fst t,
                      spotify_preview = fst (snd t), lyrics_excerpt = ly\<rparr>" by simp
  then show ?thesis by (simp add: join_artist_names_Nil)
qed



lemma spotify_search_InrD:
  assumes "spotify_search_track w q tok n s = (Inr items, s1)"
  shows "\<exists>code. spotify_search_http w q tok n = Response code (Json items)
                 \<and> \<not> raises_for_status code"
  using assms
  by (auto simp: spotify_search_track_def Let_def split: http.splits body.splits if_splits)

text \<open>What \<open>text_fallback\<close> does.\<close>

lemma text_fallback_cases:
  obtains (failed) e s2 where
      "only_logs enrich_call s s2"
      "text_fallback w q s = (Inl e, s2)"
  | (no_token) tok s1 where
      "spotify_token w s = (Inr tok, s1)" "\<not> truthy tok"
      "only_logs enrich_call s s1"
      "text_fallback w q s = (Inr None, s1)"
  | (no_item) tok s1 s2 where
      "spotify_token w s = (Inr tok, s1)" "truthy tok"
      "spotify_search_track w q (or_empty tok) 1 s1 = (Inr [], s2)"
      "only_logs enrich_call s s2"
      "text_fallback w q s = (Inr None, s2)"
  | (found) tok s1 item items s2 ly s3 where
      "spotify_token w s = (Inr tok, s1)" "truthy tok"
      "spotify_search_track w q (or_empty tok) 1 s1 = (Inr (item # items), s2)"
      "only_logs enrich_call s s3"
      "text_fallback w q s =
         (Inr (Some \<lparr>title = Some (if truthy (item_name item) then or_empty (item_name item)
                                      else q),
                      artists = join (py '', '') (artist_names (item_artists item)),
                      cover_url = (case item_images item of [] \<Rightarrow> None | i # is \<Rightarrow> i),
                      mbid = None, spotify_link = item_spotify_url item,
                      spotify_preview = item_preview_url item, lyrics_excerpt = ly\<rparr>), s3)"
proof -
  obtain tr s1 where tk: "spotify_token w s = (tr, s1)" by (cases "spotify_token w s")
  have l1: "only_logs enrich_call s s1" using tk by (rule token_only_logs)
  show ?thesis
  proof (cases tr)
    case (Inl e)
    with tk have "text_fallback w q s = (Inl e, s1)" by (simp add: text_fallback_def)
    with l1 show ?thesis by (rule failed)
  next
    case (Inr tok)
    note tk' = tk [unfolded Inr]
    show ?thesis
    proof (cases "truthy tok")
      case False
      with tk' have "text_fallback w q s = (Inr None, s1)" by (simp add: text_fallback_def)
      with tk' False l1 show ?thesis by (rule no_token)
    next
      case True
      obtain sr s2 where se: "spotify_search_track w q (or_empty tok) 1 s1 = (sr, s2)"
        by (cases "spotify_search_track w q (or_empty tok) 1 s1")
      have l2: "only_logs enrich_call s1 s2" using se by (rule search_only_logs)
      have l12: "only_logs enrich_call s s2" using l1 l2 by (rule only_logs_trans)
      show ?thesis
      proof (cases sr)
        case (Inl e)
        with tk' True se have "text_fallback w q s = (Inl e, s2)"
          by (simp add: text_fallback_def)
        with l12 show ?thesis by (rule failed)
      next
        case (Inr its)
        note se' = se [unfolded Inr]
        show ?thesis
        proof (cases its)
          case Nil
          with tk' True se' have "text_fallback w q s = (Inr None, s2)"
            by (simp add: text_fallback_def)
          with tk' True se' [unfolded Nil] l12 show ?thesis by (rule no_item)
        next
          case (Cons item items)
          define t where "t = (if truthy (item_name item) then or_empty (item_name item) else q)"
          obtain ly s3 where lr:
            "lyrics_best_effort w
               (first_artist (join (py '', '') (artist_names (item_artists item)))) t s2 = (ly, s3)"
            by (cases "lyrics_best_effort w
               (first_artist (join (py '', '') (artist_names (item_artists item)))) t s2")
          have l3: "only_logs enrich_call s2 s3" using lr by (rule lyrics_only_logs)
          have l13: "only_logs enrich_call s s3" using l12 l3 by (rule only_logs_trans)
          have "text_fallback w q s =
             (Inr (Some \<lparr>title = Some (if truthy (item_name item) then or_empty (item_name item)
                                      else q),
                      artists = join (py '', '') (artist_names (item_artists item)),
                      cover_url = (case item_images item of [] \<Rightarrow> None | i # is \<Rightarrow> i),
                      mbid = None, spotify_link = item_spotify_url item,
                      spotify_preview = item_preview_url item, lyrics_excerpt = ly\<rparr>), s3)"
            using tk' True se' [unfolded Cons] lr [unfolded t_def]
            by (cases "truthy (item_name item)")
               (simp_all add: text_fallback_def spotify_track_link_and_preview_def Let_def)
          with tk' True se' [unfolded Cons] l13 show ?thesis by (rule found)
        qed
      qed
    qed
  qed
qed


lemma mb_search_value:
  assumes "mb_search_http w q ua n = Response code (Json recs)" "\<not> raises_for_status code"
  shows "mb_search_recordings w q ua n s = (Inr recs, log (CallMbSearch q) s)"
  using assms by (simp add: mb_search_recordings_def Let_def)



lemma text_fallback_fields:
  assumes "fst (text_fallback w q s) = Inr (Some res)"
  shows "mbid res = None
         \<and> (\<exists>tok c item items.
               spotify_search_http w q tok 1 = Response c (Json (item # items))
               \<and> spotify_link res = item_spotify_url item
               \<and> title res = Some (if truthy (item_name item) then or_empty (item_name item)
                                    else q)
               \<and> artists res = join (py '', '') (artist_names (item_artists item)))"
proof (cases rule: text_fallback_cases [where w=w and q=q and s=s])
  case (failed e s2)
  with assms show ?thesis by simp
next
  case (no_token tok s1)
  with assms show ?thesis by simp
next
  case (no_item tok s1 s2)
  with assms show ?thesis by simp
next
  case (found tok s1 item items s2 ly s3)
  from spotify_search_InrD [OF found(3)] obtain c where
    h: "spotify_search_http w q (or_empty tok) 1 = Response c (Json (item # items))" by blast
  from found(5) assms have "res = \<lparr>title = Some (if truthy (item_name item) then or_empty (item_name item)
                                      else q),
                      artists = join (py '', '') (artist_names (item_artists item)),
                      cover_url = (case item_images item of [] \<Rightarrow> None | i # is \<Rightarrow> i),
                      mbid = None, spotify_link = item_spotify_url item,
                      spotify_preview = item_preview_url item, lyrics_excerpt = ly\<rparr>" by simp
  then have "mbid res = None" "spotify_link res = item_spotify_url item"
    "title res = Some (if truthy (item_name item) then or_empty (item_name item) else q)"
    "artists res = join (py '', '') (artist_names (item_artists item))"
    by simp_all
  with h show ?thesis by blast
qed



lemma mb_lookup_InrD:
  assumes "fst (mb_lookup_recording w m ua s) = Inr info"
  shows "\<exists>code. mb_lookup_http w m ua = Response code (Json info) \<and> \<not> raises_for_status code"
  using assms
  by (auto simp: mb_lookup_recording_def Let_def split: http.splits body.splits if_splits)

lemma identify_from_audio_input_result:
  assumes "fst (identify_from_audio_input w inp ua s) = Inr (Some res)"
  shows "\<exists>r s3. identify_from_audio_input w inp ua s = result_of_recording w r ua s3"
proof -
  obtain nr s1 where n: "normalize w inp s = (nr, s1)" by (cases "normalize w inp s")
  show ?thesis
  proof (cases nr)
    case (Inl e)
    with n assms show ?thesis by (simp add: identify_from_audio_input_def)
  next
    case (Inr wav)
    note n' = n [unfolded Inr]
    show ?thesis
    proof (cases "acoustid_api_key w = []")
      case True
      with n' assms show ?thesis by (simp add: identify_from_audio_input_def)
    next
      case False
      obtain fr s2 where f: "chromaprint_fingerprint w wav s1 = (fr, s2)"
        by (cases "chromaprint_fingerprint w wav s1")
      show ?thesis
      proof (cases fr)
        case None
        with n' False f assms show ?thesis by (simp add: identify_from_audio_input_def)
      next
        case (Some fd)
        obtain fp dur where fd: "fd = (fp, dur)" by (cases fd)
        obtain ar s3 where a: "acoustid_lookup w fp dur (acoustid_api_key w) s2 = (ar, s3)"
          by (cases "acoustid_lookup w fp dur (acoustid_api_key w) s2")
        show ?thesis
        proof (cases ar)
          case (Inl e)
          with n' False f Some fd a assms show ?thesis
            by (simp add: identify_from_audio_input_def)
        next
          case (Inr matches)
          show ?thesis
          proof (cases "top_recording matches")
            case None
            with n' False f Some fd a Inr assms show ?thesis
              by (simp add: identify_from_audio_input_def)
          next
            case (Some r)
            with n' False f \<open>fr = Some fd\<close> fd a Inr
            have "identify_from_audio_input w inp ua s = result_of_recording w r ua s3"
              by (simp add: identify_from_audio_input_def)
            then show ?thesis by blast
          qed
        qed
      qed
    qed
  qed
qed

text \<open>
  C10. A result that \<open>identify_from_text\<close> returns for a recording found by the metadata
  search has a non-empty artist string: the names of the recording joined by a comma
  and a space, or the word \<open>Unknown\<close> when the recording has no artist name. A result of
  \<open>identify_from_audio_input\<close> has the joined names of the recording looked up as they
  are: with no artist name its artist string is empty.
\<close>

theorem unknown_artist_default_on_text_path_only:
  "(mb_search_http w q ua 5 = Response code (Json (pick # rest)) \<and> \<not> raises_for_status code
      \<and> fst (identify_from_text w q ua s) = Inr (Some res)
     \<longrightarrow> artists res \<noteq> []
         \<and> artists res = (if artist_names (rec_artist_credit pick) = [] then py ''Unknown''
                          else join (py '', '') (artist_names (rec_artist_credit pick))))
   \<and> (fst (identify_from_audio_input w inp ua s') = Inr (Some res')
     \<longrightarrow> (\<exists>c info. mb_lookup_http w (mbid res') ua = Response c (Json info)
              \<and> artists res' = join (py '', '') (artist_names (rec_artist_credit info))
              \<and> (artist_names (rec_artist_credit info) = [] \<longrightarrow> artists res' = [])))"
proof (intro conjI impI)
  assume h: "mb_search_http w q ua 5 = Response code (Json (pick # rest))
      \<and> \<not> raises_for_status code \<and> fst (identify_from_text w q ua s) = Inr (Some res)"
  then have "mb_search_recordings w q ua 5 s = (Inr (pick # rest), log (CallMbSearch q) s)"
    by (simp add: mb_search_value)
  then have e: "identify_from_text w q ua s = result_of_pick w pick (log (CallMbSearch q) s)"
    by (simp add: identify_from_text_def)
  with h have "fst (result_of_pick w pick (log (CallMbSearch q) s)) = Inr (Some res)" by simp
  from result_of_pick_fields [OF this]
  show a: "artists res = (if artist_names (rec_artist_credit pick) = [] then py ''Unknown''
                          else join (py '', '') (artist_names (rec_artist_credit pick)))"
    by blast
  have u: "py ''Unknown'' \<noteq> []" by (simp add: py_def)
  show "artists res \<noteq> []"
  proof (cases "artist_names (rec_artist_credit pick) = []")
    case True
    with a u show ?thesis by simp
  next
    case False
    then have "join (py '', '') (artist_names (rec_artist_credit pick)) \<noteq> []"
      by (simp add: join_artist_names_Nil)
    with a False show ?thesis by simp
  qed
next
  assume h: "fst (identify_from_audio_input w inp ua s') = Inr (Some res')"
  from identify_from_audio_input_result [OF h] obtain r s3 where
    e: "identify_from_audio_input w inp ua s' = result_of_recording w r ua s3" by blast
  with h have "fst (result_of_recording w r ua s3) = Inr (Some res')" by simp
  from result_of_recording_fields [OF this] obtain info where
    f: "mbid res' = ar_id r" "fst (mb_lookup_recording w (ar_id r) ua s3) = Inr info"
       "artists res' = join (py '', '') (artist_names (rec_artist_credit info))"
    by blast
  from mb_lookup_InrD [OF f(2)] obtain c where
    "mb_lookup_http w (ar_id r) ua = Response c (Json info)" by blast
  with f have "mb_lookup_http w (mbid res') ua = Response c (Json info)
              \<and> artists res' = join (py '', '') (artist_names (rec_artist_credit info))
              \<and> (artist_names (rec_artist_credit info) = [] \<longrightarrow> artists res' = [])"
    by simp
  then show "\<exists>c info. mb_lookup_http w (mbid res') ua = Response c (Json info)
              \<and> artists res' = join (py '', '') (artist_names (rec_artist_credit info))
              \<and> (artist_names (rec_artist_credit info) = [] \<longrightarrow> artists res' = [])"
    by blast
qed

lemma identify_text_anonymous:
  "identify_from_text anonymous_world (py ''Song'') (py ''ua'') empty_st
     = (Inr (Some \<lparr>title = Some (py ''Song''), artists = py ''Unknown'', cover_url = None,
                   mbid = Some (py ''r1''), spotify_link = None, spotify_preview = None,
                   lyrics_excerpt = None\<rparr>),
        \<lparr>files = [],
         calls = [CallMbSearch (py ''Song''), CallLyrics (py ''Unknown'') (py ''Song'')]\<rparr>)"
  by (simp add: identify_from_text_def mb_search_recordings_def result_of_pick_def
        enrich_spotify_and_cover_def spotify_token_def lyrics_best_effort_def
        anonymous_world_def match_world_def quiet_world_def empty_st_def
        raises_for_status_def log_def Let_def artist_names_def truthy_def or_empty_def
        first_artist_def first_of_split_comma_def strip_def is_space_def py_def)

lemma top_recording_three: "top_recording three_matches = Some \<lparr>ar_id = Some (py ''r2'')\<rparr>"
  by (simp add: top_recording_def sorted_reverse_def score_key_def three_matches_def)

lemma identify_audio_anonymous:
  "identify_from_audio_input anonymous_world (py ''clip.ogg'') (py ''ua'') empty_st
     = (Inr (Some \<lparr>title = Some (py ''Song''), artists = [], cover_url = None,
                   mbid = Some (py ''r2''), spotify_link = None, spotify_preview = None,
                   lyrics_excerpt = None\<rparr>),
        \<lparr>files = [UserPath (py ''clip.ogg.wav'')],
         calls = [CallFfmpeg (UserPath (py ''clip.ogg'')) (UserPath (py ''clip.ogg.wav'')),
                  CallFingerprint (UserPath (py ''clip.ogg.wav'')),
                  CallAcoustid (py ''AQAA'') 12 (py ''key''),
                  CallMbLookup (Some (py ''r2''))]\<rparr>)"
proof -
  have n: "normalize anonymous_world (py ''clip.ogg'') empty_st
     = (Inr (UserPath (py ''clip.ogg.wav'')),
        \<lparr>files = [UserPath (py ''clip.ogg.wav'')],
         calls = [CallFfmpeg (UserPath (py ''clip.ogg'')) (UserPath (py ''clip.ogg.wav''))]\<rparr>)"
    by (simp add: normalize_def is_url_def strip_def is_space_def py_def fold_case_def
        extract_audio_from_file_def run_ffmpeg_cmd_def log_def create_def quiet_world_def
        match_world_def anonymous_world_def empty_st_def Let_def)
  have k: "acoustid_api_key anonymous_world = py ''key''"
    by (simp add: anonymous_world_def match_world_def)
  have kn: "py ''key'' \<noteq> []" by (simp add: py_def)
  have f: "chromaprint_fingerprint anonymous_world (UserPath (py ''clip.ogg.wav''))
      \<lparr>files = [UserPath (py ''clip.ogg.wav'')],
       calls = [CallFfmpeg (UserPath (py ''clip.ogg'')) (UserPath (py ''clip.ogg.wav''))]\<rparr>
     = (Some (py ''AQAA'', 12),
        \<lparr>files = [UserPath (py ''clip.ogg.wav'')],
         calls = [CallFfmpeg (UserPath (py ''clip.ogg'')) (UserPath (py ''clip.ogg.wav'')),
                  CallFingerprint (UserPath (py ''clip.ogg.wav''))]\<rparr>)"
    by (simp add: chromaprint_fingerprint_def anonymous_world_def match_world_def quiet_world_def
          py_int_def log_def)
  have a: "acoustid_lookup anonymous_world (py ''AQAA'') 12 (py ''key'')
      \<lparr>files = [UserPath (py ''clip.ogg.wav'')],
         calls = [CallFfmpeg (UserPath (py ''clip.ogg'')) (UserPath (py ''clip.ogg.wav'')),
                  CallFingerprint (UserPath (py ''clip.ogg.wav''))]\<rparr>
     = (Inr three_matches,
        \<lparr>files = [UserPath (py ''clip.ogg.wav'')],
         calls = [CallFfmpeg (UserPath (py ''clip.ogg'')) (UserPath (py ''clip.ogg.wav'')),
                  CallFingerprint (UserPath (py ''clip.ogg.wav'')),
                  CallAcoustid (py ''AQAA'') 12 (py ''key'')]\<rparr>)"
    by (simp add: acoustid_lookup_def anonymous_world_def match_world_def quiet_world_def
          raises_for_status_def log_def Let_def)
  have r: "result_of_recording anonymous_world \<lparr>ar_id = Some (py ''r2'')\<rparr> (py ''ua'')
             \<lparr>files = [UserPath (py ''clip.ogg.wav'')],
         calls = [CallFfmpeg (UserPath (py ''clip.ogg'')) (UserPath (py ''clip.ogg.wav'')),
                  CallFingerprint (UserPath (py ''clip.ogg.wav'')),
                  CallAcoustid (py ''AQAA'') 12 (py ''key'')]\<rparr>
     = (Inr (Some \<lparr>title = Some (py ''Song''), artists = [], cover_url = None,
                   mbid = Some (py ''r2''), spotify_link = None, spotify_preview = None,
                   lyrics_excerpt = None\<rparr>),
        \<lparr>files = [UserPath (py ''clip.ogg.wav'')],
         calls = [CallFfmpeg (UserPath (py ''clip.ogg'')) (UserPath (py ''clip.ogg.wav'')),
                  CallFingerprint (UserPath (py ''clip.ogg.wav'')),
                  CallAcoustid (py ''AQAA'') 12 (py ''key''),
                  CallMbLookup (Some (py ''r2''))]\<rparr>)"
    by (simp add: result_of_recording_def mb_lookup_recording_def anonymous_world_def
          match_world_def quiet_world_def
          raises_for_status_def log_def Let_def artist_names_def truthy_def or_empty_def
          enrich_spotify_and_cover_def spotify_token_def lyrics_best_effort_def first_artist_def)
  show ?thesis
    unfolding identify_from_audio_input_def n prod.case sum.case k
      f a top_recording_three option.case r
    using kn by simp
qed

theorem unknown_artist_default_on_text_path_only_witness:
  "mb_search_http anonymous_world (py ''Song'') (py ''ua'') 5
     = Response 200 (Json [\<lparr>rec_id = Some (py ''r1''), rec_title = Some (py ''Song''),
                             rec_artist_credit = [None], rec_releases = []\<rparr>])
   \<and> \<not> raises_for_status 200
   \<and> fst (identify_from_text anonymous_world (py ''Song'') (py ''ua'') empty_st)
       = Inr (Some \<lparr>title = Some (py ''Song''), artists = py ''Unknown'', cover_url = None,
                   mbid = Some (py ''r1''), spotify_link = None, spotify_preview = None,
                   lyrics_excerpt = None\<rparr>)
   \<and> py ''Unknown'' \<noteq> []
   \<and> fst (identify_from_audio_input anonymous_world (py ''clip.ogg'') (py ''ua'') empty_st)
       = Inr (Some \<lparr>title = Some (py ''Song''), artists = [], cover_url = None,
                   mbid = Some (py ''r2''), spotify_link = None, spotify_preview = None,
                   lyrics_excerpt = None\<rparr>)
   \<and> (\<exists>c info. mb_lookup_http anonymous_world (Some (py ''r2'')) (py ''ua'')
                    = Response c (Json info)
                 \<and> artist_names (rec_artist_credit info) = []
                 \<and> join (py '', '') (artist_names (rec_artist_credit info)) = [])"
proof -
  have r: "\<not> raises_for_status 200" by (simp add: raises_for_status_def)
  have m: "mb_search_http anonymous_world (py ''Song'') (py ''ua'') 5
     = Response 200 (Json [\<lparr>rec_id = Some (py ''r1''), rec_title = Some (py ''Song''),
                             rec_artist_credit = [None], rec_releases = []\<rparr>])"
    by (simp add: anonymous_world_def)
  have t: "fst (identify_from_text anonymous_world (py ''Song'') (py ''ua'') empty_st)
       = Inr (Some \<lparr>title = Some (py ''Song''), artists = py ''Unknown'', cover_url = None,
                   mbid = Some (py ''r1''), spotify_link = None, spotify_preview = None,
                   lyrics_excerpt = None\<rparr>)"
    by (simp add: identify_text_anonymous)
  have a: "fst (identify_from_audio_input anonymous_world (py ''clip.ogg'') (py ''ua'') empty_st)
       = Inr (Some \<lparr>title = Some (py ''Song''), artists = [], cover_url = None,
                   mbid = Some (py ''r2''), spotify_link = None, spotify_preview = None,
                   lyrics_excerpt = None\<rparr>)"
    by (simp add: identify_audio_anonymous)
  note th = unknown_artist_default_on_text_path_only
              [of anonymous_world "py ''Song''" "py ''ua''" 200
                  "\<lparr>rec_id = Some (py ''r1''), rec_title = Some (py ''Song''),
                             rec_artist_credit = [None], rec_releases = []\<rparr>" "[]" empty_st
                  "\<lparr>title = Some (py ''Song''), artists = py ''Unknown'', cover_url = None,
                   mbid = Some (py ''r1''), spotify_link = None, spotify_preview = None,
                   lyrics_excerpt = None\<rparr>"
                  "py ''clip.ogg''" empty_st
                  "\<lparr>title = Some (py ''Song''), artists = [], cover_url = None,
                   mbid = Some (py ''r2''), spotify_link = None, spotify_preview = None,
                   lyrics_excerpt = None\<rparr>"]
  from th r m t have u: "py ''Unknown'' \<noteq> []" by simp
  from th a have "\<exists>c info. mb_lookup_http anonymous_world (Some (py ''r2'')) (py ''ua'')
                    = Response c (Json info)
                 \<and> [] = join (py '', '') (artist_names (rec_artist_credit info))"
    by simp
  then obtain c info where i:
    "mb_lookup_http anonymous_world (Some (py ''r2'')) (py ''ua'') = Response c (Json info)"
    "join (py '', '') (artist_names (rec_artist_credit info)) = []"
    by auto
  from i(2) have "artist_names (rec_artist_credit info) = []" by (simp add: join_artist_names_Nil)
  with i have x: "\<exists>c info. mb_lookup_http anonymous_world (Some (py ''r2'')) (py ''ua'')
                    = Response c (Json info)
                 \<and> artist_names (rec_artist_credit info) = []
                 \<and> join (py '', '') (artist_names (rec_artist_credit info)) = []"
    by blast
  from r m t u a x show ?thesis by blast
qed

section \<open>Title and artists of a result\<close>

lemma identify_from_text_result:
  assumes "fst (identify_from_text w q ua s) = Inr (Some res)"
  shows "(\<exists>pick s1. fst (result_of_pick w pick s1) = Inr (Some res))
         \<or> (\<exists>s1. fst (text_fallback w q s1) = Inr (Some res))"
proof -
  obtain r s1 where ms: "mb_search_recordings w q ua 5 s = (r, s1)"
    by (cases "mb_search_recordings w q ua 5 s")
  show ?thesis
  proof (cases r)
    case (Inl e)
    with ms assms show ?thesis by (simp add: identify_from_text_def)
  next
    case (Inr recs)
    show ?thesis
    proof (cases recs)
      case Nil
      with ms Inr assms have "fst (text_fallback w q s1) = Inr (Some res)"
        by (simp add: identify_from_text_def)
      then show ?thesis by blast
    next
      case (Cons pick rest)
      with ms Inr assms have "fst (result_of_pick w pick s1) = Inr (Some res)"
        by (simp add: identify_from_text_def)
      then show ?thesis by blast
    qed
  qed
qed

lemma py_unknown_nonempty: "py ''Unknown'' \<noteq> []"
  by (simp add: py_def)

lemma result_of_pick_artists_nonempty:
  assumes "fst (result_of_pick w pick s) = Inr (Some res)"
  shows "artists res \<noteq> []"
proof (cases "artist_names (rec_artist_credit pick) = []")
  case True
  with result_of_pick_fields [OF assms] py_unknown_nonempty show ?thesis by simp
next
  case False
  then have "join (py '', '') (artist_names (rec_artist_credit pick)) \<noteq> []"
    by (simp add: join_artist_names_Nil)
  with result_of_pick_fields [OF assms] False show ?thesis by simp
qed

lemma text_fallback_title_nonempty:
  assumes "fst (text_fallback w q s) = Inr (Some res)" "q \<noteq> []"
  shows "truthy (title res)"
proof -
  from text_fallback_fields [OF assms(1)] obtain item :: sp_item where
    t: "title res = Some (if truthy (item_name item) then or_empty (item_name item) else q)"
    by (elim conjE exE)
  show ?thesis
  proof (cases "truthy (item_name item)")
    case True
    with t show ?thesis by (auto simp: truthy_def or_empty_def split: option.splits)
  next
    case False
    with t assms(2) show ?thesis by (simp add: truthy_def)
  qed
qed

text \<open>
  C4, as the code has it. A result that \<open>identify_from_text\<close> returns for a non-empty
  query has a non-empty title or a non-empty artist string. A result of
  \<open>identify_from_audio_input\<close> has the title and the joined artist names of the recording
  looked up as they are; nothing tests them.
\<close>

theorem text_result_has_title_or_artists:
  "(q \<noteq> [] \<and> fst (identify_from_text w q ua s) = Inr (Some res)
      \<longrightarrow> truthy (title res) \<or> artists res \<noteq> [])
   \<and> (fst (identify_from_audio_input w inp ua s') = Inr (Some res')
      \<longrightarrow> (\<exists>c info. mb_lookup_http w (mbid res') ua = Response c (Json info)
              \<and> title res' = rec_title info
              \<and> artists res' = join (py '', '') (artist_names (rec_artist_credit info))))"
proof (intro conjI impI)
  assume h: "q \<noteq> [] \<and> fst (identify_from_text w q ua s) = Inr (Some res)"
  then have "fst (identify_from_text w q ua s) = Inr (Some res)" by simp
  then have "(\<exists>pick s1. fst (result_of_pick w pick s1) = Inr (Some res))
         \<or> (\<exists>s1. fst (text_fallback w q s1) = Inr (Some res))"
    by (rule identify_from_text_result)
  then show "truthy (title res) \<or> artists res \<noteq> []"
  proof
    assume "\<exists>pick s1. fst (result_of_pick w pick s1) = Inr (Some res)"
    then have "artists res \<noteq> []" using result_of_pick_artists_nonempty by blast
    then show ?thesis by simp
  next
    assume "\<exists>s1. fst (text_fallback w q s1) = Inr (Some res)"
    with h have "truthy (title res)" using text_fallback_title_nonempty by blast
    then show ?thesis by simp
  qed
next
  assume h: "fst (identify_from_audio_input w inp ua s') = Inr (Some res')"
  from identify_from_audio_input_result [OF h] obtain r s3 where
    e: "identify_from_audio_input w inp ua s' = result_of_recording w r ua s3" by blast
  with h have "fst (result_of_recording w r ua s3) = Inr (Some res')" by simp
  from result_of_recording_fields [OF this] obtain info where
    f: "mbid res' = ar_id r" "fst (mb_lookup_recording w (ar_id r) ua s3) = Inr info"
       "title res' = rec_title info"
       "artists res' = join (py '', '') (artist_names (rec_artist_credit info))"
    by blast
  from mb_lookup_InrD [OF f(2)] obtain c where
    "mb_lookup_http w (ar_id r) ua = Response c (Json info)" by blast
  with f show "\<exists>c info. mb_lookup_http w (mbid res') ua = Response c (Json info)
              \<and> title res' = rec_title info
              \<and> artists res' = join (py '', '') (artist_names (rec_artist_credit info))"
    by auto
qed

theorem text_result_has_title_or_artists_witness:
  "py ''Song'' \<noteq> []
   \<and> fst (identify_from_text anonymous_world (py ''Song'') (py ''ua'') empty_st)
       = Inr (Some \<lparr>title = Some (py ''Song''), artists = py ''Unknown'', cover_url = None,
                   mbid = Some (py ''r1''), spotify_link = None, spotify_preview = None,
                   lyrics_excerpt = None\<rparr>)
   \<and> (truthy (Some (py ''Song'')) \<or> py ''Unknown'' \<noteq> [])
   \<and> fst (identify_from_audio_input anonymous_world (py ''clip.ogg'') (py ''ua'') empty_st)
       = Inr (Some \<lparr>title = Some (py ''Song''), artists = [], cover_url = None,
                   mbid = Some (py ''r2''), spotify_link = None, spotify_preview = None,
                   lyrics_excerpt = None\<rparr>)
   \<and> (\<exists>c info. mb_lookup_http anonymous_world (Some (py ''r2'')) (py ''ua'')
                    = Response c (Json info)
                 \<and> rec_title info = Some (py ''Song'')
                 \<and> join (py '', '') (artist_names (rec_artist_credit info)) = [])"
proof -
  have q: "py ''Song'' \<noteq> []" by (simp add: py_def)
  have t: "fst (identify_from_text anonymous_world (py ''Song'') (py ''ua'') empty_st)
       = Inr (Some \<lparr>title = Some (py ''Song''), artists = py ''Unknown'', cover_url = None,
                   mbid = Some (py ''r1''), spotify_link = None, spotify_preview = None,
                   lyrics_excerpt = None\<rparr>)"
    by (simp add: identify_text_anonymous)
  have a: "fst (identify_from_audio_input anonymous_world (py ''clip.ogg'') (py ''ua'') empty_st)
       = Inr (Some \<lparr>title = Some (py ''Song''), artists = [], cover_url = None,
                   mbid = Some (py ''r2''), spotify_link = None, spotify_preview = None,
                   lyrics_excerpt = None\<rparr>)"
    by (simp add: identify_audio_anonymous)
  note th = text_result_has_title_or_artists
              [of "py ''Song''" anonymous_world "py ''ua''" empty_st
                  "\<lparr>title = Some (py ''Song''), artists = py ''Unknown'', cover_url = None,
                   mbid = Some (py ''r1''), spotify_link = None, spotify_preview = None,
                   lyrics_excerpt = None\<rparr>"
                  "py ''clip.ogg''" empty_st
                  "\<lparr>title = Some (py ''Song''), artists = [], cover_url = None,
                   mbid = Some (py ''r2''), spotify_link = None, spotify_preview = None,
                   lyrics_excerpt = None\<rparr>"]
  from th q t have u: "truthy (Some (py ''Song'')) \<or> py ''Unknown'' \<noteq> []" by simp
  from th a have x: "\<exists>c info. mb_lookup_http anonymous_world (Some (py ''r2'')) (py ''ua'')
                    = Response c (Json info)
                 \<and> rec_title info = Some (py ''Song'')
                 \<and> join (py '', '') (artist_names (rec_artist_credit info)) = []"
    by (simp add: eq_commute)
  from q t u a x show ?thesis by blast
qed

text \<open>
  C4 as stated fails. The recording looked up on the audio path has neither a title nor
  an artist name, and the result returned has no title and an empty artist string. On
  the text path, an empty query and a Spotify hit without name and artists give a
  result whose title and artist string are both empty.
\<close>

theorem result_without_title_and_artists:
  "identify_from_audio_input untitled_world (py ''clip.ogg'') (py ''ua'') empty_st
     = (Inr (Some \<lparr>title = None, artists = [], cover_url = None,
                   mbid = Some (py ''r2''), spotify_link = None, spotify_preview = None,
                   lyrics_excerpt = None\<rparr>),
        \<lparr>files = [UserPath (py ''clip.ogg.wav'')],
         calls = [CallFfmpeg (UserPath (py ''clip.ogg'')) (UserPath (py ''clip.ogg.wav'')),
                  CallFingerprint (UserPath (py ''clip.ogg.wav'')),
                  CallAcoustid (py ''AQAA'') 12 (py ''key''),
                  CallMbLookup (Some (py ''r2''))]\<rparr>)
   \<and> fst (identify_from_text nameless_hit_world [] (py ''ua'') empty_st)
     = Inr (Some \<lparr>title = Some [], artists = [], cover_url = None, mbid = None,
                  spotify_link = Some (py ''https://open.spotify.com/track/1''),
                  spotify_preview = None, lyrics_excerpt = None\<rparr>)"
proof -
  have n: "normalize untitled_world (py ''clip.ogg'') empty_st
     = (Inr (UserPath (py ''clip.ogg.wav'')),
        \<lparr>files = [UserPath (py ''clip.ogg.wav'')],
         calls = [CallFfmpeg (UserPath (py ''clip.ogg'')) (UserPath (py ''clip.ogg.wav''))]\<rparr>)"
    by (simp add: normalize_def is_url_def strip_def is_space_def py_def fold_case_def
        extract_audio_from_file_def run_ffmpeg_cmd_def log_def create_def quiet_world_def
        match_world_def anonymous_world_def untitled_world_def empty_st_def Let_def)
  have k: "acoustid_api_key untitled_world = py ''key''"
    by (simp add: untitled_world_def anonymous_world_def match_world_def)
  have kn: "py ''key'' \<noteq> []" by (simp add: py_def)
  have f: "chromaprint_fingerprint untitled_world (UserPath (py ''clip.ogg.wav''))
      \<lparr>files = [UserPath (py ''clip.ogg.wav'')],
       calls = [CallFfmpeg (UserPath (py ''clip.ogg'')) (UserPath (py ''clip.ogg.wav''))]\<rparr>
     = (Some (py ''AQAA'', 12),
        \<lparr>files = [UserPath (py ''clip.ogg.wav'')],
         calls = [CallFfmpeg (UserPath (py ''clip.ogg'')) (UserPath (py ''clip.ogg.wav'')),
                  CallFingerprint (UserPath (py ''clip.ogg.wav''))]\<rparr>)"
    by (simp add: chromaprint_fingerprint_def untitled_world_def anonymous_world_def
          match_world_def quiet_world_def py_int_def log_def)
  have a: "acoustid_lookup untitled_world (py ''AQAA'') 12 (py ''key'')
      \<lparr>files = [UserPath (py ''clip.ogg.wav'')],
         calls = [CallFfmpeg (UserPath (py ''clip.ogg'')) (UserPath (py ''clip.ogg.wav'')),
                  CallFingerprint (UserPath (py ''clip.ogg.wav''))]\<rparr>
     = (Inr three_matches,
        \<lparr>files = [UserPath (py ''clip.ogg.wav'')],
         calls = [CallFfmpeg (UserPath (py ''clip.ogg'')) (UserPath (py ''clip.ogg.wav'')),
                  CallFingerprint (UserPath (py ''clip.ogg.wav'')),
                  CallAcoustid (py ''AQAA'') 12 (py ''key'')]\<rparr>)"
    by (simp add: acoustid_lookup_def untitled_world_def anonymous_world_def match_world_def
          quiet_world_def raises_for_status_def log_def Let_def)
  have r: "result_of_recording untitled_world \<lparr>ar_id = Some (py ''r2'')\<rparr> (py ''ua'')
             \<lparr>files = [UserPath (py ''clip.ogg.wav'')],
         calls = [CallFfmpeg (UserPath (py ''clip.ogg'')) (UserPath (py ''clip.ogg.wav'')),
                  CallFingerprint (UserPath (py ''clip.ogg.wav'')),
                  CallAcoustid (py ''AQAA'') 12 (py ''key'')]\<rparr>
     = (Inr (Some \<lparr>title = None, artists = [], cover_url = None,
                   mbid = Some (py ''r2''), spotify_link = None, spotify_preview = None,
                   lyrics_excerpt = None\<rparr>),
        \<lparr>files = [UserPath (py ''clip.ogg.wav'')],
         calls = [CallFfmpeg (UserPath (py ''clip.ogg'')) (UserPath (py ''clip.ogg.wav'')),
                  CallFingerprint (UserPath (py ''clip.ogg.wav'')),
                  CallAcoustid (py ''AQAA'') 12 (py ''key''),
                  CallMbLookup (Some (py ''r2''))]\<rparr>)"
    by (simp add: result_of_recording_def mb_lookup_recording_def untitled_world_def
          anonymous_world_def match_world_def quiet_world_def
          raises_for_status_def log_def Let_def artist_names_def truthy_def or_empty_def
          enrich_spotify_and_cover_def spotify_token_def lyrics_best_effort_def first_artist_def)
  have au: "identify_from_audio_input untitled_world (py ''clip.ogg'') (py ''ua'') empty_st
     = (Inr (Some \<lparr>title = None, artists = [], cover_url = None,
                   mbid = Some (py ''r2''), spotify_link = None, spotify_preview = None,
                   lyrics_excerpt = None\<rparr>),
        \<lparr>files = [UserPath (py ''clip.ogg.wav'')],
         calls = [CallFfmpeg (UserPath (py ''clip.ogg'')) (UserPath (py ''clip.ogg.wav'')),
                  CallFingerprint (UserPath (py ''clip.ogg.wav'')),
                  CallAcoustid (py ''AQAA'') 12 (py ''key''),
                  CallMbLookup (Some (py ''r2''))]\<rparr>)"
    unfolding identify_from_audio_input_def n prod.case sum.case k
      f a top_recording_three option.case r
    using kn by simp
  have tx: "fst (identify_from_text nameless_hit_world [] (py ''ua'') empty_st)
     = Inr (Some \<lparr>title = Some [], artists = [], cover_url = None, mbid = None,
                  spotify_link = Some (py ''https://open.spotify.com/track/1''),
                  spotify_preview = None, lyrics_excerpt = None\<rparr>)"
    by (simp add: identify_from_text_def mb_search_recordings_def text_fallback_def
        spotify_token_def spotify_client_credentials_token_def spotify_search_track_def
        spotify_track_link_and_preview_def lyrics_best_effort_def
        nameless_hit_world_def fallback_world_def quiet_world_def empty_st_def
        raises_for_status_def log_def Let_def artist_names_def truthy_def or_empty_def
        first_artist_def py_def)
  from au tx show ?thesis by simp
qed

section \<open>Temporary files\<close>

lemma run_ffmpeg_files:
  assumes "run_ffmpeg_cmd w i out s = (r, s1)"
  shows "set (files s1) \<subseteq> insert out (set (files s))
         \<and> set (files s) \<subseteq> set (files s1)
         \<and> (r = Inr () \<longrightarrow> out \<in> set (files s1))"
  using assms
  by (auto simp: run_ffmpeg_cmd_def log_def create_def Let_def
           split: ffmpeg_exit.splits if_splits)

lemma extract_file_files:
  assumes "extract_audio_from_file w p s = (r, s1)"
  shows "set (files s1) \<subseteq> insert (UserPath (p @ py ''.wav'')) (set (files s))
         \<and> (\<forall>wav. r = Inr wav \<longrightarrow> wav \<in> set (files s1) \<and> wav = UserPath (p @ py ''.wav''))"
proof -
  obtain fr s2 where f: "run_ffmpeg_cmd w (UserPath p) (UserPath (p @ py ''.wav'')) s = (fr, s2)"
    by (cases "run_ffmpeg_cmd w (UserPath p) (UserPath (p @ py ''.wav'')) s")
  note rf = run_ffmpeg_files [OF f]
  show ?thesis
  proof (cases fr)
    case (Inl e)
    with assms f rf show ?thesis by (auto simp: extract_audio_from_file_def Let_def)
  next
    case (Inr u)
    with assms f rf show ?thesis by (auto simp: extract_audio_from_file_def Let_def)
  qed
qed

lemma download_result:
  assumes "download_and_convert w u s = (Inr wav, s1)"
  shows "wav = MkstempFile \<and> MkstempFile \<in> set (files s1)"
  using assms
  by (auto simp: download_and_convert_def Let_def
           split: if_splits list.splits prod.splits sum.splits
           dest!: run_ffmpeg_files)

lemma extract_url_files:
  assumes "extract_audio_from_url w u s = (r, s1)"
  shows "(\<forall>p\<in>set (files s1). tmp_name p = None)
         \<and> (\<forall>wav. r = Inr wav \<longrightarrow> wav \<in> set (files s1) \<and> wav = MkstempFile)"
proof -
  obtain dr s2 where d: "download_and_convert w u s = (dr, s2)"
    by (cases "download_and_convert w u s")
  with assms have e: "r = dr" "s1 = cleanup_tmpdir s2"
    by (simp_all add: extract_audio_from_url_def)
  have a: "\<forall>p\<in>set (files s1). tmp_name p = None"
    unfolding e by (simp add: cleanup_tmpdir_def)
  have "\<forall>wav. r = Inr wav \<longrightarrow> wav \<in> set (files s1) \<and> wav = MkstempFile"
  proof (intro allI impI)
    fix wav assume "r = Inr wav"
    with d e have "download_and_convert w u s = (Inr wav, s2)" by simp
    from download_result [OF this] show "wav \<in> set (files s1) \<and> wav = MkstempFile"
      unfolding e by (simp add: cleanup_tmpdir_def)
  qed
  with a show ?thesis by blast
qed

text \<open>
  After \<open>normalize\<close> no file of the download directory is left, and the WAV file
  returned exists.
\<close>

lemma normalize_files:
  assumes "normalize w inp s = (r, s1)" and "\<forall>p\<in>set (files s). tmp_name p = None"
  shows "(\<forall>p\<in>set (files s1). tmp_name p = None)
         \<and> (\<forall>wav. r = Inr wav \<longrightarrow> wav \<in> set (files s1))"
proof (cases "is_url inp")
  case True
  with assms(1) have "extract_audio_from_url w inp s = (r, s1)" by (simp add: normalize_def)
  from extract_url_files [OF this] show ?thesis by blast
next
  case False
  with assms(1) have "extract_audio_from_file w inp s = (r, s1)" by (simp add: normalize_def)
  from extract_file_files [OF this] assms(2) show ?thesis by auto
qed

lemma normalize_wav_exists:
  assumes "normalize w inp s = (Inr wav, s1)"
  shows "wav \<in> set (files s1)"
proof (cases "is_url inp")
  case True
  with assms have "extract_audio_from_url w inp s = (Inr wav, s1)" by (simp add: normalize_def)
  from extract_url_files [OF this] show ?thesis by blast
next
  case False
  with assms have "extract_audio_from_file w inp s = (Inr wav, s1)" by (simp add: normalize_def)
  from extract_file_files [OF this] show ?thesis by blast
qed

text \<open>No step after the conversion creates or removes a file.\<close>

lemma identify_from_audio_input_files:
  "files (snd (identify_from_audio_input w inp ua s)) = files (snd (normalize w inp s))"
proof -
  obtain nr s1 where n: "normalize w inp s = (nr, s1)" by (cases "normalize w inp s")
  show ?thesis
  proof (cases nr)
    case (Inl e)
    with n show ?thesis by (simp add: identify_from_audio_input_def)
  next
    case (Inr wav)
    note n' = n [unfolded Inr]
    show ?thesis
    proof (cases "acoustid_api_key w = []")
      case True
      with n' show ?thesis by (simp add: identify_from_audio_input_def)
    next
      case False
      obtain fr s2 where f: "chromaprint_fingerprint w wav s1 = (fr, s2)"
        by (cases "chromaprint_fingerprint w wav s1")
      then have f2: "files s2 = files s1"
        by (auto simp: chromaprint_fingerprint_def log_def split: option.splits)
      show ?thesis
      proof (cases fr)
        case None
        with n' False f f2 show ?thesis by (simp add: identify_from_audio_input_def)
      next
        case (Some fd)
        obtain fp dur where fd: "fd = (fp, dur)" by (cases fd)
        obtain ar s3 where a: "acoustid_lookup w fp dur (acoustid_api_key w) s2 = (ar, s3)"
          by (cases "acoustid_lookup w fp dur (acoustid_api_key w) s2")
        then have f3: "files s3 = files s2"
          by (auto simp: acoustid_lookup_def log_def Let_def
                   split: http.splits body.splits if_splits)
        show ?thesis
        proof (cases ar)
          case (Inl e)
          with n' False f Some fd a f2 f3 show ?thesis
            by (simp add: identify_from_audio_input_def)
        next
          case (Inr matches)
          show ?thesis
          proof (cases "top_recording matches")
            case None
            with n' False f Some fd a Inr f2 f3 show ?thesis
              by (simp add: identify_from_audio_input_def)
          next
            case (Some r)
            with n' False f \<open>fr = Some fd\<close> fd a Inr
            have "identify_from_audio_input w inp ua s = result_of_recording w r ua s3"
              by (simp add: identify_from_audio_input_def)
            with result_of_recording_trace [of w r ua s3] n' f2 f3 show ?thesis by simp
          qed
        qed
      qed
    qed
  qed
qed

text \<open>
  C3, as the code has it. When \<open>identify_from_audio_input\<close> returns, with a result, with
  \<open>None\<close> or with an exception, no file of the download directory is left. The WAV file
  that the conversion returned is not removed: the files that exist when the call
  returns are those that exist after the conversion, the WAV file among them.
\<close>

theorem download_directory_removed_wav_kept:
  "((\<forall>p\<in>set (files s). tmp_name p = None)
      \<longrightarrow> (\<forall>p\<in>set (files (snd (identify_from_audio_input w inp ua s))). tmp_name p = None))
   \<and> (normalize w inp s = (Inr wav, s1)
      \<longrightarrow> files (snd (identify_from_audio_input w inp ua s)) = files s1
          \<and> wav \<in> set (files (snd (identify_from_audio_input w inp ua s))))"
proof (intro conjI impI)
  obtain nr s2 where n: "normalize w inp s = (nr, s2)" by (cases "normalize w inp s")
  assume "\<forall>p\<in>set (files s). tmp_name p = None"
  from normalize_files [OF n this] n
  show "\<forall>p\<in>set (files (snd (identify_from_audio_input w inp ua s))). tmp_name p = None"
    by (simp add: identify_from_audio_input_files)
next
  assume n: "normalize w inp s = (Inr wav, s1)"
  then show "files (snd (identify_from_audio_input w inp ua s)) = files s1"
    by (simp add: identify_from_audio_input_files)
  from normalize_wav_exists [OF n] n
  show "wav \<in> set (files (snd (identify_from_audio_input w inp ua s)))"
    by (simp add: identify_from_audio_input_files)
qed

lemma normalize_clip_upload:
  "normalize quiet_world (py ''clip.ogg'') upload_st
     = (Inr (UserPath (py ''clip.ogg.wav'')),
        \<lparr>files = [UserPath (py ''clip.ogg.wav''), UserPath (py ''clip.ogg'')],
         calls = [CallFfmpeg (UserPath (py ''clip.ogg'')) (UserPath (py ''clip.ogg.wav''))]\<rparr>)"
  by (simp add: normalize_def is_url_def strip_def is_space_def py_def fold_case_def
        extract_audio_from_file_def run_ffmpeg_cmd_def log_def create_def quiet_world_def
        upload_st_def Let_def)

theorem download_directory_removed_wav_kept_witness:
  "list_all (\<lambda>p. tmp_name p = None) (files upload_st)
   \<and> normalize quiet_world (py ''clip.ogg'') upload_st
       = (Inr (UserPath (py ''clip.ogg.wav'')),
          \<lparr>files = [UserPath (py ''clip.ogg.wav''), UserPath (py ''clip.ogg'')],
           calls = [CallFfmpeg (UserPath (py ''clip.ogg'')) (UserPath (py ''clip.ogg.wav''))]\<rparr>)
   \<and> files (snd (identify_from_audio_input quiet_world (py ''clip.ogg'') (py ''ua'') upload_st))
       = [UserPath (py ''clip.ogg.wav''), UserPath (py ''clip.ogg'')]
   \<and> list_all (\<lambda>p. tmp_name p = None)
         (files (snd (identify_from_audio_input quiet_world (py ''clip.ogg'') (py ''ua'')
                        upload_st)))
   \<and> UserPath (py ''clip.ogg.wav'')
       \<in> set (files (snd (identify_from_audio_input quiet_world (py ''clip.ogg'') (py ''ua'')
                              upload_st)))
   \<and> list_all (\<lambda>p. tmp_name p = None) (files empty_st)
   \<and> normalize key_world (py '' HTTPS://x.example/v '') empty_st
       = (Inr MkstempFile,
          \<lparr>files = [MkstempFile],
           calls = [CallYtdlp (py '' HTTPS://x.example/v ''),
                    CallFfmpeg (TmpDirEntry (py ''dl.webm'')) (TmpDirEntry (py ''audio.wav'')),
                    CallFfmpeg (TmpDirEntry (py ''audio.wav'')) MkstempFile]\<rparr>)
   \<and> files (snd (identify_from_audio_input key_world (py '' HTTPS://x.example/v '') (py ''ua'')
                     empty_st))
       = [MkstempFile]"
proof -
  have u: "\<forall>p\<in>set (files upload_st). tmp_name p = None" by (simp add: upload_st_def)
  note th = download_directory_removed_wav_kept
              [of upload_st quiet_world "py ''clip.ogg''" "py ''ua''"
                  "UserPath (py ''clip.ogg.wav'')"
                  "\<lparr>files = [UserPath (py ''clip.ogg.wav''), UserPath (py ''clip.ogg'')],
                    calls = [CallFfmpeg (UserPath (py ''clip.ogg''))
                               (UserPath (py ''clip.ogg.wav''))]\<rparr>"]
  from th u normalize_clip_upload
  have a: "files (snd (identify_from_audio_input quiet_world (py ''clip.ogg'') (py ''ua'') upload_st))
       = [UserPath (py ''clip.ogg.wav''), UserPath (py ''clip.ogg'')]"
    and b: "\<forall>p\<in>set (files (snd (identify_from_audio_input quiet_world (py ''clip.ogg'')
                                      (py ''ua'') upload_st))). tmp_name p = None"
    and c: "UserPath (py ''clip.ogg.wav'')
       \<in> set (files (snd (identify_from_audio_input quiet_world (py ''clip.ogg'') (py ''ua'')
                              upload_st)))"
    by simp_all
  note th2 = download_directory_removed_wav_kept
              [of empty_st key_world "py '' HTTPS://x.example/v ''" "py ''ua''" MkstempFile
                  "\<lparr>files = [MkstempFile],
           calls = [CallYtdlp (py '' HTTPS://x.example/v ''),
                    CallFfmpeg (TmpDirEntry (py ''dl.webm'')) (TmpDirEntry (py ''audio.wav'')),
                    CallFfmpeg (TmpDirEntry (py ''audio.wav'')) MkstempFile]\<rparr>"]
  from th2 normalize_url_key
  have d: "files (snd (identify_from_audio_input key_world (py '' HTTPS://x.example/v '') (py ''ua'')
                     empty_st))
       = [MkstempFile]"
    by simp
  have e: "list_all (\<lambda>p. tmp_name p = None) (files empty_st)" by (simp add: empty_st_def)
  from u b have u': "list_all (\<lambda>p. tmp_name p = None) (files upload_st)"
    and b': "list_all (\<lambda>p. tmp_name p = None)
         (files (snd (identify_from_audio_input quiet_world (py ''clip.ogg'') (py ''ua'')
                        upload_st)))"
    by (simp_all add: list_all_iff)
  from u' normalize_clip_upload a b' c e normalize_url_key d show ?thesis by blast
qed

text \<open>
  C3 as stated fails. For a file input and for a URL input the call returns \<open>None\<close>, and
  the WAV file that the conversion created still exists: \<open>clip.ogg.wav\<close> beside the
  input, the file made by \<open>mkstemp\<close> for the download.
\<close>

theorem normalized_wav_left_behind:
  "files upload_st = [UserPath (py ''clip.ogg'')]
   \<and> identify_from_audio_input quiet_world (py ''clip.ogg'') (py ''ua'') upload_st
       = (Inr None,
          \<lparr>files = [UserPath (py ''clip.ogg.wav''), UserPath (py ''clip.ogg'')],
           calls = [CallFfmpeg (UserPath (py ''clip.ogg'')) (UserPath (py ''clip.ogg.wav''))]\<rparr>)
   \<and> files empty_st = []
   \<and> identify_from_audio_input key_world (py '' HTTPS://x.example/v '') (py ''ua'') empty_st
       = (Inr None,
          \<lparr>files = [MkstempFile],
           calls = [CallYtdlp (py '' HTTPS://x.example/v ''),
                    CallFfmpeg (TmpDirEntry (py ''dl.webm'')) (TmpDirEntry (py ''audio.wav'')),
                    CallFfmpeg (TmpDirEntry (py ''audio.wav'')) MkstempFile,
                    CallFingerprint MkstempFile]\<rparr>)"
proof -
  have k1: "acoustid_api_key quiet_world = []" by (simp add: quiet_world_def)
  have k2: "acoustid_api_key key_world \<noteq> []"
    by (simp add: quiet_world_def key_world_def py_def)
  have f: "fingerprint_file key_world MkstempFile = None"
    by (simp add: quiet_world_def key_world_def)
  have a: "identify_from_audio_input quiet_world (py ''clip.ogg'') (py ''ua'') upload_st
       = (Inr None,
          \<lparr>files = [UserPath (py ''clip.ogg.wav''), UserPath (py ''clip.ogg'')],
           calls = [CallFfmpeg (UserPath (py ''clip.ogg'')) (UserPath (py ''clip.ogg.wav''))]\<rparr>)"
    by (simp add: identify_from_audio_input_def normalize_clip_upload k1)
  have b: "identify_from_audio_input key_world (py '' HTTPS://x.example/v '') (py ''ua'') empty_st
       = (Inr None,
          \<lparr>files = [MkstempFile],
           calls = [CallYtdlp (py '' HTTPS://x.example/v ''),
                    CallFfmpeg (TmpDirEntry (py ''dl.webm'')) (TmpDirEntry (py ''audio.wav'')),
                    CallFfmpeg (TmpDirEntry (py ''audio.wav'')) MkstempFile,
                    CallFingerprint MkstempFile]\<rparr>)"
    using k2 by (simp add: identify_from_audio_input_def normalize_url_key
                   chromaprint_fingerprint_def f log_def)
  from a b show ?thesis by (simp add: upload_st_def empty_st_def)
qed

end
